theory Spec2Isabelle
  imports Complex_Main "HOL-Library.Monad_Syntax"
begin

section \<open>Data model (shared/schema.ts)\<close>

text \<open>
  The three tables of \<^verbatim>\<open>shared/schema.ts\<close>. A row is a record with one field per
  column; a nullable column is an \<open>option\<close>. Timestamps are milliseconds since the
  epoch, as a JavaScript \<^verbatim>\<open>Date\<close> holds them.

  Ids and values are Postgres \<^verbatim>\<open>serial\<close>/\<^verbatim>\<open>integer\<close> columns: 32-bit integers. The
  model has them as \<open>int\<close> and writes the range out where a number comes from a request:
  an id that is compared with the \<^verbatim>\<open>id\<close> column (\<open>getLeadById\<close>) and an integer
  property of a request body (the validators). A number that is read from a column, such
  as the id of the session user, is within the range.
\<close>

definition int4 :: "int \<Rightarrow> bool" where
  "int4 n = (- 2147483648 \<le> n \<and> n \<le> 2147483647)"

record user =
  u_id :: int
  username :: string
  password :: string
  u_email :: string
  fullName :: string
  role :: string
  u_createdAt :: int

record lead =
  l_id :: int
  companyName :: string
  contactName :: string
  l_email :: string
  phone :: "string option"
  status :: string
  source :: string
  l_value :: "int option"
  ownerId :: int
  l_createdAt :: int
  l_updatedAt :: int

record activity =
  a_id :: int
  leadId :: int
  userId :: int
  a_type :: string
  subject :: string
  a_notes :: "string option"
  a_createdAt :: int

text \<open>
  The database: the three tables in storage order, and the last value handed out by each
  of the two \<^verbatim>\<open>serial\<close> sequences that the modelled code advances.
\<close>

record db =
  users :: "user list"
  leads :: "lead list"
  activities :: "activity list"
  leads_seq :: int
  activities_seq :: int

text \<open>
  \<^verbatim>\<open>ActivityWithUser = Activity & { user: User }\<close> and the lead objects that travel
  through \<^verbatim>\<open>routes.ts\<close> as \<^verbatim>\<open>any\<close>: the columns of the row, the joined \<^verbatim>\<open>owner\<close>
  and the \<^verbatim>\<open>activities\<close> array. \<open>None\<close> stands for a JavaScript \<^verbatim>\<open>null\<close> (a left join
  without a match) as well as for \<^verbatim>\<open>undefined\<close> (the property is not there at all, as on
  the plain row that \<^verbatim>\<open>createLead\<close> returns).
\<close>

record activity_with_user =
  a_row :: activity
  a_user :: "user option"

record lead_obj =
  row :: lead
  owner :: "user option"
  acts :: "activity_with_user list option"

section \<open>The store (server/storage.ts)\<close>

text \<open>
  \<^verbatim>\<open>.leftJoin(users, eq(leads.ownerId, users.id))\<close>: one output row per matching user,
  and one row with a null user when nothing matches.
\<close>

definition leftJoin_owner :: "user list \<Rightarrow> lead \<Rightarrow> lead_obj list" where
  "leftJoin_owner us l =
     (case filter (\<lambda>u. u_id u = ownerId l) us of
        [] \<Rightarrow> [\<lparr>row = l, owner = None, acts = None\<rparr>]
      | m # ms \<Rightarrow> map (\<lambda>u. \<lparr>row = l, owner = Some u, acts = None\<rparr>) (m # ms))"

text \<open>
  \<^verbatim>\<open>.orderBy(desc(leads.createdAt))\<close>. SQL leaves the order of rows with equal keys
  open; the model keeps them in storage order.
\<close>

definition orderBy_desc_createdAt :: "lead_obj list \<Rightarrow> lead_obj list" where
  "orderBy_desc_createdAt js = sort_key (\<lambda>j. - l_createdAt (row j)) js"

text \<open>
  \<^verbatim>\<open>getAllLeads(userId?: number, role?: string)\<close>. An omitted argument is \<open>None\<close>.
  The JavaScript test \<^verbatim>\<open>role === "sales_executive" && userId\<close> holds when the role is
  that string and \<^verbatim>\<open>userId\<close> is truthy: present and not \<open>0\<close>.
\<close>

definition getAllLeads :: "db \<Rightarrow> int option \<Rightarrow> string option \<Rightarrow> lead_obj list" where
  "getAllLeads d userId' role' =
     (let query = concat (map (leftJoin_owner (users d)) (leads d)) in
      case userId' of
        Some uid \<Rightarrow>
          if role' = Some ''sales_executive'' \<and> uid \<noteq> 0
          then orderBy_desc_createdAt (filter (\<lambda>j. ownerId (row j) = uid) query)
          else orderBy_desc_createdAt query
      | None \<Rightarrow> orderBy_desc_createdAt query)"

text \<open>
  What a \<^verbatim>\<open>try\<close> block of \<^verbatim>\<open>routes.ts\<close> can catch: a failed schema validation
  (\<^verbatim>\<open>ZodError\<close>, thrown by \<^verbatim>\<open>parse\<close>) or an error of the database.
\<close>

datatype exn = ZodError | DbError

text \<open>Newest first: creation times never increase along the list.\<close>

definition newest_first :: "lead_obj list \<Rightarrow> bool" where
  "newest_first js = sorted_wrt (\<lambda>a b. l_createdAt (row b) \<le> l_createdAt (row a)) js"

text \<open>
  \<^verbatim>\<open>getLeadById\<close>. The query compares the id with the 32-bit \<^verbatim>\<open>id\<close> column: for an
  integer outside the 32-bit range the database rejects the query and the call throws.
  Otherwise the result is the joined row with that id (the first one, as the array
  destructuring \<^verbatim>\<open>const [lead] = ...\<close> takes it), \<^verbatim>\<open>undefined\<close> when there is none,
  and with it the lead's activities, each joined with its author, newest first: the
  query that \<^verbatim>\<open>getActivitiesByLeadId\<close> makes as well.
\<close>

definition leftJoin_user :: "user list \<Rightarrow> activity \<Rightarrow> activity_with_user list" where
  "leftJoin_user us a =
     (case filter (\<lambda>u. u_id u = userId a) us of
        [] \<Rightarrow> [\<lparr>a_row = a, a_user = None\<rparr>]
      | m # ms \<Rightarrow> map (\<lambda>u. \<lparr>a_row = a, a_user = Some u\<rparr>) (m # ms))"

definition getActivitiesByLeadId :: "db \<Rightarrow> int \<Rightarrow> activity_with_user list" where
  "getActivitiesByLeadId d lid =
     sort_key (\<lambda>j. - a_createdAt (a_row j))
       (filter (\<lambda>j. leadId (a_row j) = lid)
          (concat (map (leftJoin_user (users d)) (activities d))))"

definition getLeadById :: "db \<Rightarrow> int \<Rightarrow> exn + lead_obj option" where
  "getLeadById d i =
     (if \<not> int4 i then Inl DbError
      else
        Inr (case filter (\<lambda>j. l_id (row j) = i)
                    (concat (map (leftJoin_owner (users d)) (leads d))) of
               [] \<Rightarrow> None
             | l # _ \<Rightarrow> Some (l\<lparr>acts := Some (getActivitiesByLeadId d i)\<rparr>)))"


subsection \<open>Writes\<close>

text \<open>
  \<^verbatim>\<open>InsertLead\<close> and \<^verbatim>\<open>Partial<InsertLead>\<close>, the outputs of \<^verbatim>\<open>insertLeadSchema\<close> and of
  \<^verbatim>\<open>insertLeadSchema.partial()\<close>: the columns of \<^verbatim>\<open>leads\<close> without \<^verbatim>\<open>id\<close>,
  \<^verbatim>\<open>createdAt\<close>, \<^verbatim>\<open>updatedAt\<close>. An optional property that is not there is \<open>None\<close>; for
  a nullable column, \<open>Some None\<close> is an explicit \<^verbatim>\<open>null\<close>.
\<close>

record insert_lead =
  i_companyName :: string
  i_contactName :: string
  i_email :: string
  i_phone :: "string option option"
  i_status :: "string option"
  i_source :: string
  i_value :: "int option option"
  i_ownerId :: int

record partial_lead =
  p_companyName :: "string option"
  p_contactName :: "string option"
  p_email :: "string option"
  p_phone :: "string option option"
  p_status :: "string option"
  p_source :: "string option"
  p_value :: "int option option"
  p_ownerId :: "int option"

record insert_activity =
  i_leadId :: int
  i_userId :: int
  i_type :: string
  i_subject :: string
  i_notes :: "string option option"

text \<open>
  \<^verbatim>\<open>createLead\<close>: \<^verbatim>\<open>insert into leads ... returning *\<close>. The id is the next value of
  the sequence (taken even when the insert then fails), \<^verbatim>\<open>status\<close> defaults to
  \<^verbatim>\<open>'new'\<close>, both timestamps default to now. The insert is rejected when the id is taken
  (primary key) or \<^verbatim>\<open>owner_id\<close> references no user (foreign key).
\<close>

definition createLead :: "db \<Rightarrow> int \<Rightarrow> insert_lead \<Rightarrow> (exn + lead) \<times> db" where
  "createLead d now v =
     (let nid = leads_seq d + 1;
          l = \<lparr>l_id = nid, companyName = i_companyName v, contactName = i_contactName v,
               l_email = i_email v,
               phone = (case i_phone v of None \<Rightarrow> None | Some x \<Rightarrow> x),
               status = (case i_status v of None \<Rightarrow> ''new'' | Some x \<Rightarrow> x),
               source = i_source v,
               l_value = (case i_value v of None \<Rightarrow> None | Some x \<Rightarrow> x),
               ownerId = i_ownerId v, l_createdAt = now, l_updatedAt = now\<rparr>
      in if nid \<in> set (map l_id (leads d)) \<or> i_ownerId v \<notin> set (map u_id (users d))
         then (Inl DbError, d\<lparr>leads_seq := nid\<rparr>)
         else (Inr l, d\<lparr>leads := leads d @ [l], leads_seq := nid\<rparr>))"

text \<open>
  \<^verbatim>\<open>updateLead\<close>: \<^verbatim>\<open>update leads set ..., updated_at = now where id = ... returning *\<close>;
  properties that are not in \<^verbatim>\<open>updateData\<close> keep their value. The result is the first
  updated row, \<^verbatim>\<open>undefined\<close> when no row has that id. The statement is rejected, and
  changes nothing, when an updated row would reference an owner that does not exist.
\<close>

definition set_fields :: "partial_lead \<Rightarrow> int \<Rightarrow> lead \<Rightarrow> lead" where
  "set_fields v now l =
     l\<lparr>companyName := (case p_companyName v of None \<Rightarrow> companyName l | Some x \<Rightarrow> x),
       contactName := (case p_contactName v of None \<Rightarrow> contactName l | Some x \<Rightarrow> x),
       l_email := (case p_email v of None \<Rightarrow> l_email l | Some x \<Rightarrow> x),
       phone := (case p_phone v of None \<Rightarrow> phone l | Some x \<Rightarrow> x),
       status := (case p_status v of None \<Rightarrow> status l | Some x \<Rightarrow> x),
       source := (case p_source v of None \<Rightarrow> source l | Some x \<Rightarrow> x),
       l_value := (case p_value v of None \<Rightarrow> l_value l | Some x \<Rightarrow> x),
       ownerId := (case p_ownerId v of None \<Rightarrow> ownerId l | Some x \<Rightarrow> x),
       l_updatedAt := now\<rparr>"

definition updateLead :: "db \<Rightarrow> int \<Rightarrow> int \<Rightarrow> partial_lead \<Rightarrow> exn + (lead option \<times> db)" where
  "updateLead d now i v =
     (let ls = map (\<lambda>l. if l_id l = i then set_fields v now l else l) (leads d)
      in if list_ex (\<lambda>l. ownerId l \<notin> set (map u_id (users d))) (filter (\<lambda>l. l_id l = i) ls)
         then Inl DbError
         else Inr (case filter (\<lambda>l. l_id l = i) ls of [] \<Rightarrow> None | l # _ \<Rightarrow> Some l,
                   d\<lparr>leads := ls\<rparr>))"

text \<open>
  \<^verbatim>\<open>deleteLead\<close> is one statement, \<^verbatim>\<open>delete from leads where id = ...\<close>. The column
  \<^verbatim>\<open>activities.lead_id\<close> is declared \<^verbatim>\<open>references(() => leads.id, { onDelete: 'cascade' })\<close>,
  so the statement has two steps: the rows of \<^verbatim>\<open>leads\<close> go, then the referential action
  removes the activities that referenced them.

  A statement runs inside a transaction of its own: its steps work on a copy, and the
  copy replaces the store only when all of them are done. \<open>fault\<close> says whether, and
  before which step (or, past the last step, before the commit), the backend fails.
\<close>

datatype fault = NoFault | FaultAt nat

fun run_steps :: "fault \<Rightarrow> nat \<Rightarrow> (db \<Rightarrow> db) list \<Rightarrow> db \<Rightarrow> db option" where
  "run_steps f k [] d = (if f = FaultAt k then None else Some d)"
| "run_steps f k (s # ss) d = (if f = FaultAt k then None else run_steps f (Suc k) ss (s d))"

definition pg_statement :: "fault \<Rightarrow> (db \<Rightarrow> db) list \<Rightarrow> db \<Rightarrow> exn option \<times> db" where
  "pg_statement f steps d =
     (case run_steps f 0 steps d of None \<Rightarrow> (Some DbError, d) | Some d' \<Rightarrow> (None, d'))"

definition delete_from_leads :: "int \<Rightarrow> db \<Rightarrow> db" where
  "delete_from_leads i d = d\<lparr>leads := filter (\<lambda>l. l_id l \<noteq> i) (leads d)\<rparr>"

definition cascade_activities :: "int \<Rightarrow> db \<Rightarrow> db" where
  "cascade_activities i d = d\<lparr>activities := filter (\<lambda>a. leadId a \<noteq> i) (activities d)\<rparr>"

definition deleteLead :: "fault \<Rightarrow> db \<Rightarrow> int \<Rightarrow> exn option \<times> db" where
  "deleteLead f d i = pg_statement f [delete_from_leads i, cascade_activities i] d"

text \<open>
  \<^verbatim>\<open>createActivity\<close>: \<^verbatim>\<open>insert into activities ... returning *\<close>, rejected when the id
  is taken or when \<^verbatim>\<open>lead_id\<close> or \<^verbatim>\<open>user_id\<close> references no row.
\<close>

definition createActivity :: "db \<Rightarrow> int \<Rightarrow> insert_activity \<Rightarrow> (exn + activity) \<times> db" where
  "createActivity d now v =
     (let nid = activities_seq d + 1;
          a = \<lparr>a_id = nid, leadId = i_leadId v, userId = i_userId v, a_type = i_type v,
               subject = i_subject v,
               a_notes = (case i_notes v of None \<Rightarrow> None | Some x \<Rightarrow> x),
               a_createdAt = now\<rparr>
      in if nid \<in> set (map a_id (activities d)) \<or> i_leadId v \<notin> set (map l_id (leads d))
            \<or> i_userId v \<notin> set (map u_id (users d))
         then (Inl DbError, d\<lparr>activities_seq := nid\<rparr>)
         else (Inr a, d\<lparr>activities := activities d @ [a], activities_seq := nid\<rparr>))"

subsection \<open>Dashboard statistics\<close>

text \<open>
  \<^verbatim>\<open>allLeads.reduce((acc, lead) => { acc[key] = (acc[key] || 0) + 1; return acc }, {})\<close>
  followed by \<^verbatim>\<open>Object.entries\<close>: the counts per key, in the order in which the keys
  were first seen. (JavaScript lists keys that are array indices, such as \<^verbatim>\<open>"7"\<close>,
  before the others; the model takes the status and source values to be words.)
\<close>

fun bump :: "string \<Rightarrow> (string \<times> nat) list \<Rightarrow> (string \<times> nat) list" where
  "bump k [] = [(k, 1)]"
| "bump k ((k', n) # acc) = (if k = k' then (k', n + 1) # acc else (k', n) # bump k acc)"

definition countBy :: "(lead \<Rightarrow> string) \<Rightarrow> lead list \<Rightarrow> (string \<times> nat) list" where
  "countBy key ls = fold (\<lambda>l acc. bump (key l) acc) ls []"

text \<open>
  Dates. A \<^verbatim>\<open>Date\<close> holds a time value, milliseconds since the epoch in UTC; \<open>now\<close>
  is the value of \<^verbatim>\<open>new Date()\<close>. The local time zone of the server is a parameter:
  the offset of local time from UTC, in milliseconds, as a function of a UTC time value and
  as a function of a local one (\<^verbatim>\<open>LocalTZA(t, true)\<close> and \<^verbatim>\<open>LocalTZA(t, false)\<close> of the
  language specification). A zone with daylight saving has offsets that change.
\<close>

record zone =
  offset_at :: "int \<Rightarrow> int"
  offset_of_local :: "int \<Rightarrow> int"

definition LocalTime :: "zone \<Rightarrow> int \<Rightarrow> int" where
  "LocalTime z t = t + offset_at z t"

definition toUTC :: "zone \<Rightarrow> int \<Rightarrow> int" where
  "toUTC z t = t - offset_of_local z t"

definition utc :: zone where
  "utc = \<lparr>offset_at = (\<lambda>t. 0), offset_of_local = (\<lambda>t. 0)\<rparr>"

definition day_ms :: int where
  "day_ms = 86400000"

text \<open>
  \<^verbatim>\<open>d.toISOString().split('T')[0]\<close> is the UTC calendar date of \<open>d\<close>; the model names
  that date by its number, the count of whole days since the epoch, which the string
  determines and is determined by.
\<close>

definition isoDate :: "int \<Rightarrow> int" where
  "isoDate t = t div day_ms"

text \<open>
  \<^verbatim>\<open>date.setDate(date.getDate() - k)\<close> works on the local time: the local date goes
  back \<open>k\<close> days, the local time of day stays, and the result is turned into UTC again.
\<close>

definition setDate_back :: "zone \<Rightarrow> int \<Rightarrow> int \<Rightarrow> int" where
  "setDate_back z now k = toUTC z (LocalTime z now - k * day_ms)"

definition last7Days :: "zone \<Rightarrow> int \<Rightarrow> int list" where
  "last7Days z now = map (\<lambda>i. isoDate (setDate_back z now (6 - int i))) [0..<7]"

record stats =
  totalLeads :: nat
  activeLeads :: nat
  convertedLeads :: nat
  totalValue :: int
  leadsByStatus :: "(string \<times> nat) list"
  leadsBySource :: "(string \<times> nat) list"
  recentActivity :: "(int \<times> nat) list"

definition getStats :: "zone \<Rightarrow> db \<Rightarrow> int \<Rightarrow> int option \<Rightarrow> string option \<Rightarrow> stats" where
  "getStats z d now userId' role' =
     (let allLeads =
            (case userId' of
               Some uid \<Rightarrow>
                 if role' = Some ''sales_executive'' \<and> uid \<noteq> 0
                 then filter (\<lambda>l. ownerId l = uid) (leads d)
                 else leads d
             | None \<Rightarrow> leads d);
          allActivities = activities d
      in \<lparr>totalLeads = length allLeads,
          activeLeads = length (filter (\<lambda>l. status l \<notin> set [''won'', ''lost'']) allLeads),
          convertedLeads = length (filter (\<lambda>l. status l = ''won'') allLeads),
          totalValue =
            fold (\<lambda>l sum. sum + (case l_value l of None \<Rightarrow> 0 | Some x \<Rightarrow> x)) allLeads 0,
          leadsByStatus = countBy status allLeads,
          leadsBySource = countBy source allLeads,
          recentActivity =
            map (\<lambda>date. (date, length (filter (\<lambda>a. isoDate (a_createdAt a) = date)
                                         allActivities)))
              (last7Days z now)\<rparr>)"

subsection \<open>Analytics\<close>

text \<open>
  The civil date (year, month, day) of a day number, in the proleptic Gregorian calendar
  that \<^verbatim>\<open>Date\<close> uses. \<^verbatim>\<open>toISOString().substring(0, 7)\<close>, the year and month of a UTC
  date, is modelled by the pair of the two numbers.
\<close>

definition civil :: "int \<Rightarrow> int \<times> int \<times> int" where
  "civil n =
     (let z = n + 719468;
          era = z div 146097;
          doe = z mod 146097;
          yoe = (doe - doe div 1460 + doe div 36524 - doe div 146096) div 365;
          doy = doe - (365 * yoe + yoe div 4 - yoe div 100);
          mp = (5 * doy + 2) div 153;
          dd = doy - (153 * mp + 2) div 5 + 1;
          mm = (if mp < 10 then mp + 3 else mp - 9);
          yy = yoe + era * 400 + (if mm \<le> 2 then 1 else 0)
      in (yy, mm, dd))"

definition isoMonth :: "int \<Rightarrow> int \<times> int" where
  "isoMonth t = (case civil (isoDate t) of (yy, mm, dd) \<Rightarrow> (yy, mm))"

text \<open>The day number of a civil date, the inverse of \<open>civil\<close>.\<close>

definition daysFromCivil :: "int \<Rightarrow> int \<Rightarrow> int \<Rightarrow> int" where
  "daysFromCivil yy mm dd =
     (let y = (if mm \<le> 2 then yy - 1 else yy);
          era = y div 400;
          yoe = y mod 400;
          doy = (153 * (if mm > 2 then mm - 3 else mm + 9) + 2) div 5 + dd - 1;
          doe = yoe * 365 + yoe div 4 - yoe div 100 + doy
      in era * 146097 + doe - 719468)"

text \<open>
  \<^verbatim>\<open>date.setMonth(date.getMonth() - k)\<close> works on the local time: the month moves, the
  day of the month and the time of day stay; a day that the target month does not have
  runs over into the month after it. The result is turned into UTC again.
\<close>

definition setMonth_back :: "zone \<Rightarrow> int \<Rightarrow> int \<Rightarrow> int" where
  "setMonth_back z now k =
     (let t = LocalTime z now
      in case civil (t div day_ms) of
           (yy, mm, dd) \<Rightarrow>
             (let idx = yy * 12 + (mm - 1) - k;
                  day = daysFromCivil (idx div 12) (idx mod 12 + 1) 1 + (dd - 1)
              in toUTC z (day * day_ms + t mod day_ms)))"

definition last6Months :: "zone \<Rightarrow> int \<Rightarrow> (int \<times> int) list" where
  "last6Months z now = map (\<lambda>i. isoMonth (setMonth_back z now (5 - int i))) [0..<6]"

text \<open>
  \<^verbatim>\<open>new Date(month + '-01').toLocaleDateString('en-US', { month: 'short' })\<close>: the
  string is read as midnight UTC of the first of the month, and the name is that of the
  month of this instant in local time.
\<close>

definition monthLabel :: "zone \<Rightarrow> int \<times> int \<Rightarrow> string" where
  "monthLabel z ym =
     (case civil (LocalTime z (daysFromCivil (fst ym) (snd ym) 1 * day_ms) div day_ms) of
        (yy, mm, dd) \<Rightarrow>
          [''Jan'', ''Feb'', ''Mar'', ''Apr'', ''May'', ''Jun'',
           ''Jul'', ''Aug'', ''Sep'', ''Oct'', ''Nov'', ''Dec''] ! nat (mm - 1))"

text \<open>
  \<^verbatim>\<open>status.charAt(0).toUpperCase() + status.slice(1)\<close>, on the ASCII letters.
\<close>

definition capitalize :: "string \<Rightarrow> string" where
  "capitalize s =
     (case s of
        [] \<Rightarrow> []
      | c # cs \<Rightarrow>
          (let n = (of_char c :: nat)
           in if 97 \<le> n \<and> n \<le> 122 then char_of (n - 32) # cs else c # cs))"

text \<open>
  The numbers of the analytics are JavaScript doubles; the model computes the quotients
  exactly, as rationals, and leaves the rounding of the floating-point operations out.
\<close>

record analytics =
  conversionRate :: rat
  avgDealSize :: rat
  avgTimeToClose :: rat
  leadTrend :: "(string \<times> nat \<times> nat) list"
  performanceByUser :: "(string \<times> nat \<times> nat \<times> int) list"
  statusDistribution :: "(string \<times> nat \<times> rat) list"

definition sumValue :: "lead list \<Rightarrow> int" where
  "sumValue ls = fold (\<lambda>l sum. sum + (case l_value l of None \<Rightarrow> 0 | Some x \<Rightarrow> x)) ls 0"

definition getAnalytics :: "zone \<Rightarrow> db \<Rightarrow> int \<Rightarrow> int option \<Rightarrow> string option \<Rightarrow> analytics" where
  "getAnalytics z d now userId' role' =
     (let allLeads =
            (case userId' of
               Some uid \<Rightarrow>
                 if role' = Some ''sales_executive'' \<and> uid \<noteq> 0
                 then filter (\<lambda>l. ownerId l = uid) (leads d)
                 else leads d
             | None \<Rightarrow> leads d);
          wonLeads = filter (\<lambda>l. status l = ''won'') allLeads;
          total = length allLeads;
          timesToClose =
            map (\<lambda>l. of_int (l_updatedAt l - l_createdAt l) / of_int (1000 * 60 * 60 * 24))
              wonLeads
      in \<lparr>conversionRate =
            (if total > 0 then of_nat (length wonLeads) / of_nat total * 100 else 0),
          avgDealSize =
            (if length wonLeads > 0
             then of_int (sumValue wonLeads) / of_nat (length wonLeads) else 0),
          avgTimeToClose =
            (if length timesToClose > 0
             then fold (\<lambda>t sum. sum + t) timesToClose 0 / of_nat (length timesToClose)
             else 0),
          leadTrend =
            map (\<lambda>month.
                   (let monthLeads = filter (\<lambda>l. isoMonth (l_createdAt l) = month) allLeads;
                        monthWon = filter (\<lambda>l. status l = ''won'') monthLeads
                    in (monthLabel z month, length monthLeads, length monthWon)))
              (last6Months z now),
          performanceByUser =
            filter (\<lambda>p. fst (snd p) > 0)
              (map (\<lambda>u.
                      (let userLeads = filter (\<lambda>l. ownerId l = u_id u) allLeads;
                           userWon = filter (\<lambda>l. status l = ''won'') userLeads
                       in (fullName u, length userLeads, length userWon, sumValue userWon)))
                 (users d)),
          statusDistribution =
            map (\<lambda>(st, count).
                   (capitalize st, count,
                    if total > 0 then of_nat count / of_nat total * 100 else 0))
              (countBy status allLeads)\<rparr>)"

section \<open>Schema validation (shared/schema.ts)\<close>

text \<open>
  A request body is a JSON object: a map from property names to values. Of the JSON
  values the model has \<^verbatim>\<open>null\<close>, the booleans, the integers and the strings; a number
  with a fraction, an array or a nested object is not represented (every property of the
  two schemas rejects it).
\<close>

datatype json = JNull | JBool bool | JNum int | JStr string

type_synonym body = "string \<Rightarrow> json option"

text \<open>
  The validators that \<^verbatim>\<open>createInsertSchema\<close> derives from the column declarations:
  \<^verbatim>\<open>text(..).notNull()\<close> is a required string, \<^verbatim>\<open>integer(..).notNull()\<close> a required
  integer within the 32-bit range of the column, a column with a default is optional, a
  nullable column is optional and accepts \<^verbatim>\<open>null\<close>. \<open>None\<close> is a validation issue.
\<close>

definition z_string :: "json option \<Rightarrow> string option" where
  "z_string x = (case x of Some (JStr s) \<Rightarrow> Some s | _ \<Rightarrow> None)"

definition z_int :: "json option \<Rightarrow> int option" where
  "z_int x = (case x of Some (JNum n) \<Rightarrow> (if int4 n then Some n else None) | _ \<Rightarrow> None)"

definition z_string_optional :: "json option \<Rightarrow> string option option" where
  "z_string_optional x =
     (case x of None \<Rightarrow> Some None | Some (JStr s) \<Rightarrow> Some (Some s) | _ \<Rightarrow> None)"

definition z_int_optional :: "json option \<Rightarrow> int option option" where
  "z_int_optional x =
     (case x of
        None \<Rightarrow> Some None
      | Some (JNum n) \<Rightarrow> (if int4 n then Some (Some n) else None)
      | _ \<Rightarrow> None)"

definition z_string_nullish :: "json option \<Rightarrow> string option option option" where
  "z_string_nullish x =
     (case x of
        None \<Rightarrow> Some None
      | Some JNull \<Rightarrow> Some (Some None)
      | Some (JStr s) \<Rightarrow> Some (Some (Some s))
      | _ \<Rightarrow> None)"

definition z_int_nullish :: "json option \<Rightarrow> int option option option" where
  "z_int_nullish x =
     (case x of
        None \<Rightarrow> Some None
      | Some JNull \<Rightarrow> Some (Some None)
      | Some (JNum n) \<Rightarrow> (if int4 n then Some (Some (Some n)) else None)
      | _ \<Rightarrow> None)"

text \<open>
  \<^verbatim>\<open>insertLeadSchema.parse\<close>, \<^verbatim>\<open>insertLeadSchema.partial().parse\<close> and
  \<^verbatim>\<open>insertActivitySchema.parse\<close>. Properties that the schema does not know are dropped.
  \<open>None\<close> is the thrown \<^verbatim>\<open>ZodError\<close>.
\<close>

definition insertLeadSchema_parse :: "body \<Rightarrow> insert_lead option" where
  "insertLeadSchema_parse b =
     do {
       cn \<leftarrow> z_string (b ''companyName'');
       ct \<leftarrow> z_string (b ''contactName'');
       em \<leftarrow> z_string (b ''email'');
       ph \<leftarrow> z_string_nullish (b ''phone'');
       st \<leftarrow> z_string_optional (b ''status'');
       so \<leftarrow> z_string (b ''source'');
       va \<leftarrow> z_int_nullish (b ''value'');
       ow \<leftarrow> z_int (b ''ownerId'');
       Some \<lparr>i_companyName = cn, i_contactName = ct, i_email = em, i_phone = ph,
             i_status = st, i_source = so, i_value = va, i_ownerId = ow\<rparr>
     }"

definition insertLeadSchema_partial_parse :: "body \<Rightarrow> partial_lead option" where
  "insertLeadSchema_partial_parse b =
     do {
       cn \<leftarrow> z_string_optional (b ''companyName'');
       ct \<leftarrow> z_string_optional (b ''contactName'');
       em \<leftarrow> z_string_optional (b ''email'');
       ph \<leftarrow> z_string_nullish (b ''phone'');
       st \<leftarrow> z_string_optional (b ''status'');
       so \<leftarrow> z_string_optional (b ''source'');
       va \<leftarrow> z_int_nullish (b ''value'');
       ow \<leftarrow> z_int_optional (b ''ownerId'');
       Some \<lparr>p_companyName = cn, p_contactName = ct, p_email = em, p_phone = ph,
             p_status = st, p_source = so, p_value = va, p_ownerId = ow\<rparr>
     }"

definition insertActivitySchema_parse :: "body \<Rightarrow> insert_activity option" where
  "insertActivitySchema_parse b =
     do {
       li \<leftarrow> z_int (b ''leadId'');
       ui \<leftarrow> z_int (b ''userId'');
       ty \<leftarrow> z_string (b ''type'');
       su \<leftarrow> z_string (b ''subject'');
       no \<leftarrow> z_string_nullish (b ''notes'');
       Some \<lparr>i_leadId = li, i_userId = ui, i_type = ty, i_subject = su, i_notes = no\<rparr>
     }"

section \<open>The routes (server/routes.ts)\<close>

subsection \<open>Sanitizing\<close>

text \<open>
  \<^verbatim>\<open>const { password, ...sanitized } = user\<close>: the user object without its
  \<^verbatim>\<open>password\<close> property.
\<close>

record sanitized_user =
  s_id :: int
  s_username :: string
  s_email :: string
  s_fullName :: string
  s_role :: string
  s_createdAt :: int

definition omit_password :: "user \<Rightarrow> sanitized_user" where
  "omit_password u =
     \<lparr>s_id = u_id u, s_username = username u, s_email = u_email u,
      s_fullName = fullName u, s_role = role u, s_createdAt = u_createdAt u\<rparr>"

definition sanitizeUser :: "user option \<Rightarrow> sanitized_user option" where
  "sanitizeUser u = (case u of None \<Rightarrow> None | Some x \<Rightarrow> Some (omit_password x))"

record sanitized_activity =
  sa_row :: activity
  sa_user :: "sanitized_user option"

record sanitized_lead =
  s_row :: lead
  s_owner :: "sanitized_user option"
  s_activities :: "sanitized_activity list option"

definition sanitizeLead :: "lead_obj \<Rightarrow> sanitized_lead" where
  "sanitizeLead l =
     \<lparr>s_row = row l,
      s_owner = sanitizeUser (owner l),
      s_activities =
        (case acts l of
           None \<Rightarrow> None
         | Some as \<Rightarrow>
             Some (map (\<lambda>a. \<lparr>sa_row = a_row a, sa_user = sanitizeUser (a_user a)\<rparr>) as))\<rparr>"

text \<open>The plain row that \<^verbatim>\<open>createLead\<close> and \<^verbatim>\<open>updateLead\<close> return, as an object.\<close>

definition plain :: "lead \<Rightarrow> lead_obj" where
  "plain l = \<lparr>row = l, owner = None, acts = None\<rparr>"

subsection \<open>Responses, events, calls\<close>

datatype payload =
    Users "sanitized_user list"
  | Leads "sanitized_lead list"
  | LeadDetail sanitized_lead
  | LeadRow "lead option"
  | ActivityRow activity
  | StatsBody stats
  | AnalyticsBody analytics
  | Error string
  | ErrorOf exn
  | Empty

record response =
  code :: nat
  content :: payload

text \<open>The envelopes \<^verbatim>\<open>{ type, data }\<close> given to \<^verbatim>\<open>broadcastToClients\<close>.\<close>

datatype event =
    lead_created sanitized_lead
  | lead_updated "sanitized_lead + lead option"
  | lead_deleted int
  | activity_created activity "sanitized_user option"

text \<open>The calls of \<^verbatim>\<open>storage\<close> methods, in the order in which a handler awaits them.\<close>

datatype call =
    GetAllUsers
  | GetAllLeads
  | GetLeadById "int option"
  | CreateLead
  | UpdateLead int
  | DeleteLead int
  | CreateActivity
  | GetStats
  | GetAnalytics

text \<open>
  What handling a request comes to: the response, the store afterwards, the events
  broadcast and the storage calls made.
\<close>

record outcome =
  resp :: response
  store :: db
  sent :: "event list"
  calls :: "call list"

definition reply :: "nat \<Rightarrow> payload \<Rightarrow> db \<Rightarrow> event list \<Rightarrow> call list \<Rightarrow> outcome" where
  "reply c p d es cs = \<lparr>resp = \<lparr>code = c, content = p\<rparr>, store = d, sent = es, calls = cs\<rparr>"

text \<open>
  The surroundings of a handler: \<^verbatim>\<open>parseInt\<close> (the JavaScript built-in, any function
  from a value to an integer or, as \<open>None\<close>, to \<^verbatim>\<open>NaN\<close>), the clock, the local time
  zone of the server, and the fault of the backend during a delete. A \<^verbatim>\<open>NaN\<close> id is
  not an integer for the database, which rejects the query: the storage call throws, as
  it does for an id outside the 32-bit range.
\<close>

record env =
  parseInt :: "json \<Rightarrow> int option"
  clock :: int
  tz :: zone
  backend :: fault

subsection \<open>Middleware\<close>

text \<open>
  \<^verbatim>\<open>req.user\<close> is the user of the session, \<open>None\<close> when \<^verbatim>\<open>req.isAuthenticated()\<close>
  is false. A middleware answers itself or calls \<^verbatim>\<open>next()\<close>, the handler.
\<close>

definition requireAuth :: "user option \<Rightarrow> db \<Rightarrow> (user \<Rightarrow> outcome) \<Rightarrow> outcome" where
  "requireAuth u d next =
     (case u of
        None \<Rightarrow> reply 401 (Error ''Unauthorized'') d [] []
      | Some x \<Rightarrow> next x)"

definition requireRole :: "string list \<Rightarrow> user option \<Rightarrow> db \<Rightarrow> (user \<Rightarrow> outcome) \<Rightarrow> outcome" where
  "requireRole roles u d next =
     (case u of
        None \<Rightarrow> reply 401 (Error ''Unauthorized'') d [] []
      | Some x \<Rightarrow>
          if role x \<notin> set roles then reply 403 (Error ''Forbidden'') d [] []
          else next x)"

subsection \<open>Handlers\<close>




text \<open>
  \<^verbatim>\<open>POST /api/leads\<close>. The body is copied; for a sales executive the copy's
  \<^verbatim>\<open>ownerId\<close> is set to the caller's id; then the copy is validated and stored. Whatever
  is thrown on the way is answered with 400.
\<close>

definition post_leads :: "env \<Rightarrow> user option \<Rightarrow> body \<Rightarrow> db \<Rightarrow> outcome" where
  "post_leads e u b d =
     requireAuth u d
       (\<lambda>x. let dataToValidate =
                   (if role x = ''sales_executive'' then b(''ownerId'' \<mapsto> JNum (u_id x)) else b)
             in case insertLeadSchema_parse dataToValidate of
                  None \<Rightarrow> reply 400 (ErrorOf ZodError) d [] []
                | Some validatedData \<Rightarrow>
                    (case createLead d (clock e) validatedData of
                       (Inl err, d') \<Rightarrow> reply 400 (ErrorOf err) d' [] [CreateLead]
                     | (Inr l, d') \<Rightarrow>
                         reply 201 (LeadRow (Some l)) d'
                           [lead_created (sanitizeLead (plain l))] [CreateLead]))"

text \<open>
  \<^verbatim>\<open>PUT /api/leads/:id\<close>: parse the id, validate the body, look the lead up, check the
  owner, update, read the lead again for the broadcast.
\<close>

definition put_lead :: "env \<Rightarrow> user option \<Rightarrow> string \<Rightarrow> body \<Rightarrow> db \<Rightarrow> outcome" where
  "put_lead e u pid b d =
     requireAuth u d
       (\<lambda>x. let id' = parseInt e (JStr pid)
             in case insertLeadSchema_partial_parse b of
                  None \<Rightarrow> reply 400 (ErrorOf ZodError) d [] []
                | Some validatedData \<Rightarrow>
                    (case id' of
                       None \<Rightarrow> reply 400 (ErrorOf DbError) d [] [GetLeadById None]
                     | Some i \<Rightarrow>
                         (case getLeadById d i of
                            Inl err \<Rightarrow> reply 400 (ErrorOf err) d [] [GetLeadById (Some i)]
                          | Inr None \<Rightarrow>
                              reply 404 (Error ''Lead not found'') d [] [GetLeadById (Some i)]
                          | Inr (Some existingLead) \<Rightarrow>
                              if role x = ''sales_executive''
                                 \<and> ownerId (row existingLead) \<noteq> u_id x
                              then reply 403 (Error ''Forbidden'') d [] [GetLeadById (Some i)]
                              else
                                (case updateLead d (clock e) i validatedData of
                                   Inl err \<Rightarrow>
                                     reply 400 (ErrorOf err) d []
                                       [GetLeadById (Some i), UpdateLead i]
                                 | Inr (l, d') \<Rightarrow>
                                     (case getLeadById d' i of
                                        Inl err \<Rightarrow>
                                          reply 400 (ErrorOf err) d' []
                                            [GetLeadById (Some i), UpdateLead i,
                                             GetLeadById (Some i)]
                                      | Inr updatedLead \<Rightarrow>
                                          reply 200 (LeadRow l) d'
                                            [lead_updated
                                               (case updatedLead of
                                                  Some ul \<Rightarrow> Inl (sanitizeLead ul)
                                                | None \<Rightarrow> Inr l)]
                                            [GetLeadById (Some i), UpdateLead i,
                                             GetLeadById (Some i)])))))"

text \<open>
  \<^verbatim>\<open>DELETE /api/leads/:id\<close>, behind \<^verbatim>\<open>requireRole("admin", "manager")\<close>.
\<close>

definition delete_lead :: "env \<Rightarrow> user option \<Rightarrow> string \<Rightarrow> db \<Rightarrow> outcome" where
  "delete_lead e u pid d =
     requireRole [''admin'', ''manager''] u d
       (\<lambda>x. case parseInt e (JStr pid) of
               None \<Rightarrow> reply 500 (Error ''Failed to delete lead'') d [] [GetLeadById None]
             | Some i \<Rightarrow>
                 (case getLeadById d i of
                    Inl err \<Rightarrow>
                      reply 500 (Error ''Failed to delete lead'') d [] [GetLeadById (Some i)]
                  | Inr None \<Rightarrow> reply 404 (Error ''Lead not found'') d [] [GetLeadById (Some i)]
                  | Inr (Some existingLead) \<Rightarrow>
                      (case deleteLead (backend e) d i of
                         (Some err, d') \<Rightarrow>
                           reply 500 (Error ''Failed to delete lead'') d' []
                             [GetLeadById (Some i), DeleteLead i]
                       | (None, d') \<Rightarrow>
                           reply 204 Empty d' [lead_deleted i]
                             [GetLeadById (Some i), DeleteLead i])))"

text \<open>
  \<^verbatim>\<open>POST /api/activities\<close>: look up the lead named by \<^verbatim>\<open>parseInt(req.body.leadId)\<close>
  (\<^verbatim>\<open>NaN\<close> when the property is missing), check the owner, validate the body with
  \<^verbatim>\<open>userId\<close> set to the caller's id, store.
\<close>

definition post_activities :: "env \<Rightarrow> user option \<Rightarrow> body \<Rightarrow> db \<Rightarrow> outcome" where
  "post_activities e u b d =
     requireAuth u d
       (\<lambda>x. case Option.bind (b ''leadId'') (parseInt e) of
               None \<Rightarrow> reply 400 (ErrorOf DbError) d [] [GetLeadById None]
             | Some i \<Rightarrow>
                 (case getLeadById d i of
                    Inl err \<Rightarrow> reply 400 (ErrorOf err) d [] [GetLeadById (Some i)]
                  | Inr None \<Rightarrow> reply 404 (Error ''Lead not found'') d [] [GetLeadById (Some i)]
                  | Inr (Some l) \<Rightarrow>
                      if role x = ''sales_executive'' \<and> ownerId (row l) \<noteq> u_id x
                      then reply 403
                             (Error ''Forbidden: You can only add activities to your own leads'')
                             d [] [GetLeadById (Some i)]
                      else
                        (case insertActivitySchema_parse (b(''userId'' \<mapsto> JNum (u_id x))) of
                           None \<Rightarrow> reply 400 (ErrorOf ZodError) d [] [GetLeadById (Some i)]
                         | Some validatedData \<Rightarrow>
                             (case createActivity d (clock e) validatedData of
                                (Inl err, d') \<Rightarrow>
                                  reply 400 (ErrorOf err) d' []
                                    [GetLeadById (Some i), CreateActivity]
                              | (Inr a, d') \<Rightarrow>
                                  reply 201 (ActivityRow a) d'
                                    [activity_created a (sanitizeUser (Some x))]
                                    [GetLeadById (Some i), CreateActivity]))))"







subsection \<open>Stores that differ in passwords only\<close>



section \<open>Sample data\<close>

text \<open>
  Three sales executives and an admin; Alice and Bob own one lead each, Dan owns none;
  the one activity is Bob's call on Bob's lead. The clock of the sample environment
  reads 2023-11-14T22:13:20Z, the day of that call.
\<close>

definition alice :: user where
  "alice = \<lparr>u_id = 1, username = ''alice'', password = ''salt1.hash1'',
            u_email = ''alice@example.com'', fullName = ''Alice A'',
            role = ''sales_executive'', u_createdAt = 1690000000000\<rparr>"

definition bob :: user where
  "bob = \<lparr>u_id = 2, username = ''bob'', password = ''salt2.hash2'',
          u_email = ''bob@example.com'', fullName = ''Bob B'',
          role = ''sales_executive'', u_createdAt = 1691000000000\<rparr>"

definition carol :: user where
  "carol = \<lparr>u_id = 3, username = ''carol'', password = ''salt3.hash3'',
            u_email = ''carol@example.com'', fullName = ''Carol C'',
            role = ''admin'', u_createdAt = 1692000000000\<rparr>"

definition dan :: user where
  "dan = \<lparr>u_id = 4, username = ''dan'', password = ''salt4.hash4'',
          u_email = ''dan@example.com'', fullName = ''Dan D'',
          role = ''sales_executive'', u_createdAt = 1693000000000\<rparr>"

definition lead_a :: lead where
  "lead_a = \<lparr>l_id = 1, companyName = ''Acme'', contactName = ''Ann'',
             l_email = ''ann@acme.test'', phone = None, status = ''new'',
             source = ''web'', l_value = Some 500, ownerId = 1,
             l_createdAt = 1699000000000, l_updatedAt = 1699000000000\<rparr>"

definition lead_b :: lead where
  "lead_b = \<lparr>l_id = 2, companyName = ''Bolt'', contactName = ''Ben'',
             l_email = ''ben@bolt.test'', phone = Some ''555'', status = ''won'',
             source = ''referral'', l_value = None, ownerId = 2,
             l_createdAt = 1699500000000, l_updatedAt = 1699900000000\<rparr>"

definition act_b :: activity where
  "act_b = \<lparr>a_id = 1, leadId = 2, userId = 2, a_type = ''call'',
            subject = ''Intro call'', a_notes = None, a_createdAt = 1699990000000\<rparr>"

definition sample_db :: db where
  "sample_db = \<lparr>users = [alice, bob, carol, dan], leads = [lead_a, lead_b],
                activities = [act_b], leads_seq = 2, activities_seq = 1\<rparr>"

text \<open>
  A stand-in for \<^verbatim>\<open>parseInt\<close> that agrees with it on integers and on strings of decimal
  digits, the only arguments it is given below.
\<close>

fun digits :: "nat \<Rightarrow> string \<Rightarrow> nat option" where
  "digits acc [] = Some acc"
| "digits acc (c # cs) =
     (let n = (of_char c :: nat)
      in if 48 \<le> n \<and> n \<le> 57 then digits (10 * acc + (n - 48)) cs else None)"

definition sample_parseInt :: "json \<Rightarrow> int option" where
  "sample_parseInt j =
     (case j of
        JNum n \<Rightarrow> Some n
      | JStr s \<Rightarrow> (if s = [] then None else map_option int (digits 0 s))
      | _ \<Rightarrow> None)"

text \<open>
  A zone like that of Berlin around the start of daylight saving time in 2023: one hour
  ahead of UTC until 2023-03-26T01:00:00Z, two hours from then on.
\<close>

definition berlin_2023 :: zone where
  "berlin_2023 =
     \<lparr>offset_at = (\<lambda>t. if t < 1679792400000 then 3600000 else 7200000),
      offset_of_local = (\<lambda>t. if t < 1679796000000 then 3600000 else 7200000)\<rparr>"

definition sample_env :: env where
  "sample_env = \<lparr>parseInt = sample_parseInt, clock = 1700000000000, tz = utc,
                 backend = NoFault\<rparr>"


text \<open>
  A valid body for \<^verbatim>\<open>POST /api/leads\<close> that names Bob as the owner, a body whose
  \<^verbatim>\<open>companyName\<close> is a number, and a valid body for \<^verbatim>\<open>POST /api/activities\<close> on
  Bob's lead.
\<close>

definition lead_body :: body where
  "lead_body = [''companyName'' \<mapsto> JStr ''Cogs'', ''contactName'' \<mapsto> JStr ''Cy'',
                ''email'' \<mapsto> JStr ''cy@cogs.test'', ''source'' \<mapsto> JStr ''web'',
                ''ownerId'' \<mapsto> JNum 2]"

definition bad_body :: body where
  "bad_body = [''companyName'' \<mapsto> JNum 5]"

definition activity_body :: body where
  "activity_body = [''leadId'' \<mapsto> JNum 2, ''type'' \<mapsto> JStr ''note'',
                    ''subject'' \<mapsto> JStr ''Follow up'']"

section \<open>Listing leads\<close>

lemmas sample_defs =
  sample_db_def alice_def bob_def carol_def dan_def lead_a_def lead_b_def act_b_def

lemma row_leftJoin_owner: "row ` set (leftJoin_owner us l) = {l}"
  by (auto simp: leftJoin_owner_def split: list.splits)

lemma rows_of_join:
  "row ` set (concat (map (leftJoin_owner us) ls)) = set ls"
proof -
  have "row ` set (concat (map (leftJoin_owner us) ls))
        = (\<Union>l\<in>set ls. row ` set (leftJoin_owner us l))"
    by auto
  also have "\<dots> = set ls"
    by (simp add: row_leftJoin_owner)
  finally show ?thesis .
qed

lemma set_orderBy [simp]: "set (orderBy_desc_createdAt js) = set js"
  by (simp add: orderBy_desc_createdAt_def)

lemma newest_first_orderBy: "newest_first (orderBy_desc_createdAt js)"
proof -
  have "sorted (map (\<lambda>j. - l_createdAt (row j)) (orderBy_desc_createdAt js))"
    unfolding orderBy_desc_createdAt_def by (rule sorted_sort_key)
  then show ?thesis
    by (simp add: newest_first_def sorted_map sorted_wrt_iff_nth_less)
qed

lemma newest_first_getAllLeads: "newest_first (getAllLeads d userId' role')"
  by (simp add: getAllLeads_def Let_def newest_first_orderBy split: option.split)

lemma rows_getAllLeads_filtered:
  assumes "role' = Some ''sales_executive''" and "uid \<noteq> 0"
  shows "row ` set (getAllLeads d (Some uid) role') = {l \<in> set (leads d). ownerId l = uid}"
proof -
  have "row ` set (getAllLeads d (Some uid) role')
        = {l \<in> row ` set (concat (map (leftJoin_owner (users d)) (leads d))). ownerId l = uid}"
    using assms by (auto simp: getAllLeads_def Let_def)
  then show ?thesis
    by (simp only: rows_of_join)
qed

lemma rows_getAllLeads_all:
  assumes "\<not> (role' = Some ''sales_executive'' \<and> (\<exists>uid. userId' = Some uid \<and> uid \<noteq> 0))"
  shows "row ` set (getAllLeads d userId' role') = set (leads d)"
proof -
  have "getAllLeads d userId' role'
        = orderBy_desc_createdAt (concat (map (leftJoin_owner (users d)) (leads d)))"
    using assms by (auto simp: getAllLeads_def Let_def split: option.split)
  then show ?thesis
    by (simp only: set_orderBy rows_of_join)
qed

text \<open>
  With the primary key of \<^verbatim>\<open>users\<close> (no two users share an id) the join yields one
  row per lead, and the rows of the answer are the leads of the table, filtered or not,
  sorted by creation time, newest first.
\<close>

lemma map_insort_key:
  "map f (insort_key (\<lambda>x. k (f x)) x xs) = insort_key k (f x) (map f xs)"
  by (induction xs) simp_all

lemma map_sort_key:
  "map f (sort_key (\<lambda>x. k (f x)) xs) = sort_key k (map f xs)"
  by (induction xs) (simp_all add: map_insort_key)

lemma one_match:
  assumes "distinct (map u_id us)"
  shows "length (filter (\<lambda>u. u_id u = k) us) \<le> 1"
  using assms
proof (induction us)
  case Nil
  show ?case by simp
next
  case (Cons a us)
  show ?case
  proof (cases "u_id a = k")
    case True
    from Cons.prems have "u_id a \<notin> u_id ` set us"
      by simp
    then have "\<forall>x \<in> set us. u_id x \<noteq> u_id a"
      by (metis imageI)
    with True have "filter (\<lambda>u. u_id u = k) us = []"
      by (simp add: filter_empty_conv)
    with True show ?thesis by simp
  next
    case False
    with Cons show ?thesis by simp
  qed
qed

lemma join_one_row:
  assumes "distinct (map u_id us)"
  shows "map row (leftJoin_owner us l) = [l]"
proof (cases "filter (\<lambda>u. u_id u = ownerId l) us")
  case Nil
  then show ?thesis by (simp add: leftJoin_owner_def)
next
  case (Cons m ms)
  with one_match [OF assms, of "ownerId l"] have "ms = []" by simp
  with Cons show ?thesis by (simp add: leftJoin_owner_def)
qed

lemma join_rows:
  assumes "distinct (map u_id us)"
  shows "map row (concat (map (leftJoin_owner us) ls)) = ls"
  by (induction ls) (simp_all add: join_one_row [OF assms])

lemma getAllLeads_rows:
  assumes "distinct (map u_id (users d))"
  shows "map row (getAllLeads d userId' role')
         = sort_key (\<lambda>l. - l_createdAt l)
             (case userId' of
                Some uid \<Rightarrow>
                  if role' = Some ''sales_executive'' \<and> uid \<noteq> 0
                  then filter (\<lambda>l. ownerId l = uid) (leads d) else leads d
              | None \<Rightarrow> leads d)"
proof -
  have s: "map row (orderBy_desc_createdAt js) = sort_key (\<lambda>l. - l_createdAt l) (map row js)" for js
    using map_sort_key [of row "\<lambda>l. - l_createdAt l" js]
    by (simp add: orderBy_desc_createdAt_def)
  have f: "map row (filter (\<lambda>j. ownerId (row j) = n) js)
           = filter (\<lambda>l. ownerId l = n) (map row js)" for n js
    by (simp add: filter_map comp_def)
  show ?thesis
    by (simp add: getAllLeads_def Let_def s f join_rows [OF assms] split: option.split)
qed

text \<open>
  Claim C1, as the code has it. \<^verbatim>\<open>getAllLeads\<close> always answers newest first. When the
  role is \<^verbatim>\<open>sales_executive\<close> and the user id is truthy (present and not \<open>0\<close>), every
  lead returned is owned by that user, and the leads returned are exactly the leads of
  that owner. In every other case the leads returned are all the leads of the table.
  (Lemma \<open>getAllLeads_rows\<close> above gives the rows of the answer one by one.)
\<close>

theorem getAllLeads_scope:
  "newest_first (getAllLeads d userId' role')
   \<and> (role' = Some ''sales_executive'' \<and> userId' = Some uid \<and> uid \<noteq> 0 \<longrightarrow>
        (\<forall>j \<in> set (getAllLeads d userId' role'). ownerId (row j) = uid)
        \<and> row ` set (getAllLeads d userId' role') = {l \<in> set (leads d). ownerId l = uid})
   \<and> (\<not> (role' = Some ''sales_executive'' \<and> (\<exists>n. userId' = Some n \<and> n \<noteq> 0)) \<longrightarrow>
        row ` set (getAllLeads d userId' role') = set (leads d))"
proof (intro conjI impI)
  show "newest_first (getAllLeads d userId' role')"
    by (rule newest_first_getAllLeads)
next
  assume a: "role' = Some ''sales_executive'' \<and> userId' = Some uid \<and> uid \<noteq> 0"
  then have r: "row ` set (getAllLeads d userId' role') = {l \<in> set (leads d). ownerId l = uid}"
    using rows_getAllLeads_filtered [of role' uid d] by simp
  then show "row ` set (getAllLeads d userId' role') = {l \<in> set (leads d). ownerId l = uid}" .
  from r show "\<forall>j \<in> set (getAllLeads d userId' role'). ownerId (row j) = uid"
    by blast
next
  assume "\<not> (role' = Some ''sales_executive'' \<and> (\<exists>n. userId' = Some n \<and> n \<noteq> 0))"
  then show "row ` set (getAllLeads d userId' role') = set (leads d)"
    by (rule rows_getAllLeads_all)
qed

text \<open>
  The theorem at work on the sample data: Alice, a sales executive, gets her own lead;
  Carol, an admin, gets both.
\<close>

theorem getAllLeads_scope_witness:
  "map (l_id \<circ> row) (getAllLeads sample_db (Some 1) (Some ''sales_executive'')) = [1]
   \<and> newest_first (getAllLeads sample_db (Some 1) (Some ''sales_executive''))
   \<and> row ` set (getAllLeads sample_db (Some 1) (Some ''sales_executive''))
       = {l \<in> set (leads sample_db). ownerId l = 1}
   \<and> map (l_id \<circ> row) (getAllLeads sample_db (Some 3) (Some ''admin'')) = [2, 1]
   \<and> row ` set (getAllLeads sample_db (Some 3) (Some ''admin'')) = set (leads sample_db)"
proof -
  have own: "map (l_id \<circ> row) (getAllLeads sample_db (Some 1) (Some ''sales_executive'')) = [1]"
    by (simp add: getAllLeads_def leftJoin_owner_def orderBy_desc_createdAt_def sample_defs)
  have all: "map (l_id \<circ> row) (getAllLeads sample_db (Some 3) (Some ''admin'')) = [2, 1]"
    by (simp add: getAllLeads_def leftJoin_owner_def orderBy_desc_createdAt_def sample_defs)
  from getAllLeads_scope [of sample_db "Some 1" "Some ''sales_executive''" 1]
  have exec: "newest_first (getAllLeads sample_db (Some 1) (Some ''sales_executive''))
     \<and> row ` set (getAllLeads sample_db (Some 1) (Some ''sales_executive''))
         = {l \<in> set (leads sample_db). ownerId l = 1}"
    by simp
  from getAllLeads_scope [of sample_db "Some 3" "Some ''admin''" 3]
  have admin: "row ` set (getAllLeads sample_db (Some 3) (Some ''admin'')) = set (leads sample_db)"
    by simp
  from own all exec admin show ?thesis by blast
qed

text \<open>
  Claim C1 as it is written fails for a sales executive whose id is \<open>0\<close>: the call
  returns the leads of owners \<open>2\<close> and \<open>1\<close>.
\<close>

theorem getAllLeads_zero_id_counterexample:
  "map (ownerId \<circ> row) (getAllLeads sample_db (Some 0) (Some ''sales_executive'')) = [2, 1]"
  by (simp add: getAllLeads_def leftJoin_owner_def orderBy_desc_createdAt_def sample_defs)

section \<open>The guard of the owner filter\<close>

lemma rows_in_join: "j \<in> set (leftJoin_owner us l) \<Longrightarrow> row j = l"
  by (auto simp: leftJoin_owner_def split: list.splits)

lemma filter_join:
  "filter (\<lambda>j. P (row j)) (concat (map (leftJoin_owner us) ls))
   = concat (map (leftJoin_owner us) (filter P ls))"
proof (induction ls)
  case Nil
  show ?case by simp
next
  case (Cons l ls)
  have "filter (\<lambda>j. P (row j)) (leftJoin_owner us l) = (if P l then leftJoin_owner us l else [])"
    by (auto simp: filter_empty_conv rows_in_join intro: filter_True)
  with Cons show ?case by simp
qed

lemma unscoped:
  assumes "\<not> (role' = Some ''sales_executive'' \<and> (\<exists>n. userId' = Some n \<and> n \<noteq> 0))"
  shows "(case userId' of
            Some uid \<Rightarrow> if role' = Some ''sales_executive'' \<and> uid \<noteq> 0 then f uid else g
          | None \<Rightarrow> g) = g"
  using assms by (auto split: option.split)

lemma getAllLeads_unscoped:
  assumes "\<not> (role' = Some ''sales_executive'' \<and> (\<exists>n. userId' = Some n \<and> n \<noteq> 0))"
  shows "getAllLeads d userId' role' = getAllLeads d None None"
  by (simp only: getAllLeads_def unscoped [OF assms] option.case)

lemma getStats_unscoped:
  assumes "\<not> (role' = Some ''sales_executive'' \<and> (\<exists>n. userId' = Some n \<and> n \<noteq> 0))"
  shows "getStats z d now userId' role' = getStats z d now None None"
  by (simp only: getStats_def unscoped [OF assms] option.case)

lemma getAnalytics_unscoped:
  assumes "\<not> (role' = Some ''sales_executive'' \<and> (\<exists>n. userId' = Some n \<and> n \<noteq> 0))"
  shows "getAnalytics z d now userId' role' = getAnalytics z d now None None"
  by (simp only: getAnalytics_def unscoped [OF assms] option.case)

text \<open>What the three functions answer from when the filter is not applied: all leads.\<close>

lemma getAllLeads_unfiltered:
  assumes "\<not> (role' = Some ''sales_executive'' \<and> (\<exists>n. userId' = Some n \<and> n \<noteq> 0))"
  shows "getAllLeads d userId' role'
         = orderBy_desc_createdAt (concat (map (leftJoin_owner (users d)) (leads d)))"
  unfolding getAllLeads_unscoped [OF assms] by (simp add: getAllLeads_def)

lemma getStats_unfiltered:
  assumes "\<not> (role' = Some ''sales_executive'' \<and> (\<exists>n. userId' = Some n \<and> n \<noteq> 0))"
  shows "totalLeads (getStats z d now userId' role') = length (leads d)"
    and "activeLeads (getStats z d now userId' role')
         = length (filter (\<lambda>l. status l \<notin> set [''won'', ''lost'']) (leads d))"
    and "convertedLeads (getStats z d now userId' role')
         = length (filter (\<lambda>l. status l = ''won'') (leads d))"
    and "totalValue (getStats z d now userId' role') = sumValue (leads d)"
    and "leadsByStatus (getStats z d now userId' role') = countBy status (leads d)"
    and "leadsBySource (getStats z d now userId' role') = countBy source (leads d)"
  unfolding getStats_unscoped [OF assms]
  by (simp_all add: getStats_def Let_def sumValue_def)

lemma getAnalytics_unfiltered:
  assumes "\<not> (role' = Some ''sales_executive'' \<and> (\<exists>n. userId' = Some n \<and> n \<noteq> 0))"
  shows "performanceByUser (getAnalytics z d now userId' role')
         = filter (\<lambda>p. fst (snd p) > 0)
             (map (\<lambda>u. (fullName u,
                        length (filter (\<lambda>l. ownerId l = u_id u) (leads d)),
                        length (filter (\<lambda>l. status l = ''won'')
                                  (filter (\<lambda>l. ownerId l = u_id u) (leads d))),
                        sumValue (filter (\<lambda>l. status l = ''won'')
                                    (filter (\<lambda>l. ownerId l = u_id u) (leads d)))))
                (users d))"
    and "leadTrend (getAnalytics z d now userId' role')
         = map (\<lambda>month.
                  (monthLabel z month,
                   length (filter (\<lambda>l. isoMonth (l_createdAt l) = month) (leads d)),
                   length (filter (\<lambda>l. status l = ''won'')
                             (filter (\<lambda>l. isoMonth (l_createdAt l) = month) (leads d)))))
             (last6Months z now)"
    and "map (\<lambda>e. (fst e, fst (snd e))) (statusDistribution (getAnalytics z d now userId' role'))
         = map (\<lambda>e. (capitalize (fst e), snd e)) (countBy status (leads d))"
  unfolding getAnalytics_unscoped [OF assms]
  by (simp_all add: getAnalytics_def Let_def split_def comp_def)

lemma scoped:
  assumes "uid \<noteq> (0::int)"
  shows "(Some ''sales_executive'' = Some ''sales_executive'' \<and> uid \<noteq> 0) = True"
  using assms by simp

lemma scoped_getAllLeads:
  assumes "uid \<noteq> 0" and "leads d' = filter (\<lambda>l. ownerId l = uid) (leads d)"
    and "users d' = users d"
  shows "getAllLeads d (Some uid) (Some ''sales_executive'') = getAllLeads d' None None"
  by (simp only: getAllLeads_def scoped [OF assms(1)] option.case if_True Let_def assms(2,3)
        filter_join [of "\<lambda>l. ownerId l = uid" "users d" "leads d"])

lemma scoped_getStats:
  assumes "uid \<noteq> 0" and "leads d' = filter (\<lambda>l. ownerId l = uid) (leads d)"
    and "activities d' = activities d"
  shows "getStats z d now (Some uid) (Some ''sales_executive'') = getStats z d' now None None"
  by (simp only: getStats_def scoped [OF assms(1)] option.case if_True assms(2,3))

lemma scoped_getAnalytics:
  assumes "uid \<noteq> 0" and "leads d' = filter (\<lambda>l. ownerId l = uid) (leads d)"
    and "users d' = users d"
  shows "getAnalytics z d now (Some uid) (Some ''sales_executive'')
         = getAnalytics z d' now None None"
  by (simp only: getAnalytics_def scoped [OF assms(1)] option.case if_True assms(2,3))

text \<open>
  Claim C6. In \<^verbatim>\<open>getAllLeads\<close>, \<^verbatim>\<open>getStats\<close> and \<^verbatim>\<open>getAnalytics\<close> the owner filter is
  applied only when the role is \<^verbatim>\<open>sales_executive\<close> and the user id is truthy. In
  every other case, so for a sales executive whose id is absent or \<open>0\<close>, each of them
  answers from all the leads of the table: \<^verbatim>\<open>getAllLeads\<close> returns the unfiltered join,
  whose rows are the leads of the table; the totals and the counts by status and source of
  \<^verbatim>\<open>getStats\<close> are those of all leads; the rollup per user, the trend and the status
  counts of \<^verbatim>\<open>getAnalytics\<close> are those of all leads. (The quotients of the analytics
  are doubles and are left out here.) When both hold, for an id of the 32-bit range, each
  of the three answers what it answers without role and user on the store that has only
  that owner's leads.
\<close>

theorem owner_filter_guard:
  "(\<not> (role' = Some ''sales_executive'' \<and> (\<exists>n. userId' = Some n \<and> n \<noteq> 0)) \<longrightarrow>
      getAllLeads d userId' role'
        = orderBy_desc_createdAt (concat (map (leftJoin_owner (users d)) (leads d)))
      \<and> row ` set (getAllLeads d userId' role') = set (leads d)
      \<and> totalLeads (getStats z d now userId' role') = length (leads d)
      \<and> activeLeads (getStats z d now userId' role')
          = length (filter (\<lambda>l. status l \<notin> set [''won'', ''lost'']) (leads d))
      \<and> convertedLeads (getStats z d now userId' role')
          = length (filter (\<lambda>l. status l = ''won'') (leads d))
      \<and> totalValue (getStats z d now userId' role') = sumValue (leads d)
      \<and> leadsByStatus (getStats z d now userId' role') = countBy status (leads d)
      \<and> leadsBySource (getStats z d now userId' role') = countBy source (leads d)
      \<and> performanceByUser (getAnalytics z d now userId' role')
          = filter (\<lambda>p. fst (snd p) > 0)
              (map (\<lambda>u. (fullName u,
                         length (filter (\<lambda>l. ownerId l = u_id u) (leads d)),
                         length (filter (\<lambda>l. status l = ''won'')
                                   (filter (\<lambda>l. ownerId l = u_id u) (leads d))),
                         sumValue (filter (\<lambda>l. status l = ''won'')
                                     (filter (\<lambda>l. ownerId l = u_id u) (leads d)))))
                 (users d))
      \<and> leadTrend (getAnalytics z d now userId' role')
          = map (\<lambda>month.
                   (monthLabel z month,
                    length (filter (\<lambda>l. isoMonth (l_createdAt l) = month) (leads d)),
                    length (filter (\<lambda>l. status l = ''won'')
                              (filter (\<lambda>l. isoMonth (l_createdAt l) = month) (leads d)))))
              (last6Months z now)
      \<and> map (\<lambda>e. (fst e, fst (snd e))) (statusDistribution (getAnalytics z d now userId' role'))
          = map (\<lambda>e. (capitalize (fst e), snd e)) (countBy status (leads d)))
   \<and> (int4 uid \<and> uid \<noteq> 0 \<longrightarrow>
      getAllLeads d (Some uid) (Some ''sales_executive'')
        = getAllLeads (d\<lparr>leads := filter (\<lambda>l. ownerId l = uid) (leads d)\<rparr>) None None
      \<and> getStats z d now (Some uid) (Some ''sales_executive'')
        = getStats z (d\<lparr>leads := filter (\<lambda>l. ownerId l = uid) (leads d)\<rparr>) now None None
      \<and> getAnalytics z d now (Some uid) (Some ''sales_executive'')
        = getAnalytics z (d\<lparr>leads := filter (\<lambda>l. ownerId l = uid) (leads d)\<rparr>) now None None)"
proof (intro conjI impI)
  assume a: "\<not> (role' = Some ''sales_executive'' \<and> (\<exists>n. userId' = Some n \<and> n \<noteq> 0))"
  show "getAllLeads d userId' role'
        = orderBy_desc_createdAt (concat (map (leftJoin_owner (users d)) (leads d)))"
    by (rule getAllLeads_unfiltered [OF a])
  show "row ` set (getAllLeads d userId' role') = set (leads d)"
    by (rule rows_getAllLeads_all [OF a])
  show "totalLeads (getStats z d now userId' role') = length (leads d)"
    by (rule getStats_unfiltered(1) [OF a])
  show "activeLeads (getStats z d now userId' role')
          = length (filter (\<lambda>l. status l \<notin> set [''won'', ''lost'']) (leads d))"
    by (rule getStats_unfiltered(2) [OF a])
  show "convertedLeads (getStats z d now userId' role')
          = length (filter (\<lambda>l. status l = ''won'') (leads d))"
    by (rule getStats_unfiltered(3) [OF a])
  show "totalValue (getStats z d now userId' role') = sumValue (leads d)"
    by (rule getStats_unfiltered(4) [OF a])
  show "leadsByStatus (getStats z d now userId' role') = countBy status (leads d)"
    by (rule getStats_unfiltered(5) [OF a])
  show "leadsBySource (getStats z d now userId' role') = countBy source (leads d)"
    by (rule getStats_unfiltered(6) [OF a])
  show "performanceByUser (getAnalytics z d now userId' role')
          = filter (\<lambda>p. fst (snd p) > 0)
              (map (\<lambda>u. (fullName u,
                         length (filter (\<lambda>l. ownerId l = u_id u) (leads d)),
                         length (filter (\<lambda>l. status l = ''won'')
                                   (filter (\<lambda>l. ownerId l = u_id u) (leads d))),
                         sumValue (filter (\<lambda>l. status l = ''won'')
                                     (filter (\<lambda>l. ownerId l = u_id u) (leads d)))))
                 (users d))"
    by (rule getAnalytics_unfiltered(1) [OF a])
  show "leadTrend (getAnalytics z d now userId' role')
          = map (\<lambda>month.
                   (monthLabel z month,
                    length (filter (\<lambda>l. isoMonth (l_createdAt l) = month) (leads d)),
                    length (filter (\<lambda>l. status l = ''won'')
                              (filter (\<lambda>l. isoMonth (l_createdAt l) = month) (leads d)))))
              (last6Months z now)"
    by (rule getAnalytics_unfiltered(2) [OF a])
  show "map (\<lambda>e. (fst e, fst (snd e))) (statusDistribution (getAnalytics z d now userId' role'))
          = map (\<lambda>e. (capitalize (fst e), snd e)) (countBy status (leads d))"
    by (rule getAnalytics_unfiltered(3) [OF a])
next
  assume "int4 uid \<and> uid \<noteq> 0"
  then have b: "uid \<noteq> 0" by simp
  show "getAllLeads d (Some uid) (Some ''sales_executive'')
        = getAllLeads (d\<lparr>leads := filter (\<lambda>l. ownerId l = uid) (leads d)\<rparr>) None None"
    by (rule scoped_getAllLeads [OF b]) simp_all
  show "getStats z d now (Some uid) (Some ''sales_executive'')
        = getStats z (d\<lparr>leads := filter (\<lambda>l. ownerId l = uid) (leads d)\<rparr>) now None None"
    by (rule scoped_getStats [OF b]) simp_all
  show "getAnalytics z d now (Some uid) (Some ''sales_executive'')
        = getAnalytics z (d\<lparr>leads := filter (\<lambda>l. ownerId l = uid) (leads d)\<rparr>) now None None"
    by (rule scoped_getAnalytics [OF b]) simp_all
qed

text \<open>
  On the sample data a sales executive with id \<open>0\<close>, or with no id, gets all leads, the
  statistics of both leads and the rollup of both owners; Alice gets the statistics of
  her one lead.
\<close>

theorem owner_filter_guard_witness:
  "map (l_id \<circ> row) (getAllLeads sample_db (Some 0) (Some ''sales_executive'')) = [2, 1]
   \<and> row ` set (getAllLeads sample_db None (Some ''sales_executive'')) = set (leads sample_db)
   \<and> length (leads sample_db) = 2
   \<and> totalLeads (getStats utc sample_db 1700000000000 (Some 0) (Some ''sales_executive'')) = 2
   \<and> totalLeads (getStats utc sample_db 1700000000000 None (Some ''sales_executive'')) = 2
   \<and> leadsByStatus (getStats utc sample_db 1700000000000 (Some 0) (Some ''sales_executive''))
       = [(''new'', 1), (''won'', 1)]
   \<and> performanceByUser
        (getAnalytics utc sample_db 1700000000000 (Some 0) (Some ''sales_executive''))
       = [(''Alice A'', 1, 0, 0), (''Bob B'', 1, 1, 0)]
   \<and> performanceByUser
        (getAnalytics utc sample_db 1700000000000 None (Some ''sales_executive''))
       = [(''Alice A'', 1, 0, 0), (''Bob B'', 1, 1, 0)]
   \<and> int4 1
   \<and> totalLeads (getStats utc sample_db 1700000000000 (Some 1) (Some ''sales_executive'')) = 1
   \<and> performanceByUser
        (getAnalytics utc sample_db 1700000000000 (Some 1) (Some ''sales_executive''))
       = [(''Alice A'', 1, 0, 0)]"
proof -
  have zero: "\<not> (Some ''sales_executive'' = Some ''sales_executive''
                 \<and> (\<exists>n. Some (0::int) = Some n \<and> n \<noteq> 0))"
    by simp
  have absent: "\<not> (Some ''sales_executive'' = Some ''sales_executive''
                   \<and> (\<exists>n. (None::int option) = Some n \<and> n \<noteq> 0))"
    by simp
  have one: "int4 1 \<and> (1::int) \<noteq> 0"
    by (simp add: int4_def)
  note A0 = owner_filter_guard [of "Some ''sales_executive''" "Some 0" sample_db utc
      1700000000000 1, THEN conjunct1, THEN mp, OF zero]
  note A1 = owner_filter_guard [of "Some ''sales_executive''" None sample_db utc
      1700000000000 1, THEN conjunct1, THEN mp, OF absent]
  note B = owner_filter_guard [of "Some ''sales_executive''" None sample_db utc
      1700000000000 1, THEN conjunct2, THEN mp, OF one]
  have ids: "map (l_id \<circ> row)
               (orderBy_desc_createdAt
                  (concat (map (leftJoin_owner (users sample_db)) (leads sample_db)))) = [2, 1]"
    by (simp add: leftJoin_owner_def orderBy_desc_createdAt_def sample_defs)
  have len: "length (leads sample_db) = 2"
    by (simp add: sample_defs)
  have st: "countBy status (leads sample_db) = [(''new'', 1), (''won'', 1)]"
    by (simp add: countBy_def sample_defs)
  have pu: "filter (\<lambda>p. fst (snd p) > 0)
              (map (\<lambda>u. (fullName u,
                         length (filter (\<lambda>l. ownerId l = u_id u) (leads sample_db)),
                         length (filter (\<lambda>l. status l = ''won'')
                                   (filter (\<lambda>l. ownerId l = u_id u) (leads sample_db))),
                         sumValue (filter (\<lambda>l. status l = ''won'')
                                     (filter (\<lambda>l. ownerId l = u_id u) (leads sample_db)))))
                 (users sample_db))
            = [(''Alice A'', 1, 0, 0), (''Bob B'', 1, 1, 0)]"
    by (simp add: sumValue_def sample_defs)
  have own: "totalLeads (getStats utc (sample_db\<lparr>leads := filter (\<lambda>l. ownerId l = 1)
                 (leads sample_db)\<rparr>) 1700000000000 None None) = 1"
    by (simp add: getStats_def Let_def sample_defs)
  have ownpu: "performanceByUser (getAnalytics utc (sample_db\<lparr>leads := filter (\<lambda>l. ownerId l = 1)
                 (leads sample_db)\<rparr>) 1700000000000 None None) = [(''Alice A'', 1, 0, 0)]"
    by (simp add: getAnalytics_def Let_def sumValue_def sample_defs)
  from A0 have g0: "getAllLeads sample_db (Some 0) (Some ''sales_executive'')
      = orderBy_desc_createdAt
          (concat (map (leftJoin_owner (users sample_db)) (leads sample_db)))"
    and t0: "totalLeads (getStats utc sample_db 1700000000000 (Some 0) (Some ''sales_executive''))
      = length (leads sample_db)"
    and s0: "leadsByStatus (getStats utc sample_db 1700000000000 (Some 0)
        (Some ''sales_executive'')) = countBy status (leads sample_db)"
    and p0: "performanceByUser
        (getAnalytics utc sample_db 1700000000000 (Some 0) (Some ''sales_executive''))
      = filter (\<lambda>p. fst (snd p) > 0)
              (map (\<lambda>u. (fullName u,
                         length (filter (\<lambda>l. ownerId l = u_id u) (leads sample_db)),
                         length (filter (\<lambda>l. status l = ''won'')
                                   (filter (\<lambda>l. ownerId l = u_id u) (leads sample_db))),
                         sumValue (filter (\<lambda>l. status l = ''won'')
                                     (filter (\<lambda>l. ownerId l = u_id u) (leads sample_db)))))
                 (users sample_db))"
    by blast+
  from A1 have r1: "row ` set (getAllLeads sample_db None (Some ''sales_executive''))
      = set (leads sample_db)"
    and t1: "totalLeads (getStats utc sample_db 1700000000000 None (Some ''sales_executive''))
      = length (leads sample_db)"
    and p1: "performanceByUser
        (getAnalytics utc sample_db 1700000000000 None (Some ''sales_executive''))
      = filter (\<lambda>p. fst (snd p) > 0)
              (map (\<lambda>u. (fullName u,
                         length (filter (\<lambda>l. ownerId l = u_id u) (leads sample_db)),
                         length (filter (\<lambda>l. status l = ''won'')
                                   (filter (\<lambda>l. ownerId l = u_id u) (leads sample_db))),
                         sumValue (filter (\<lambda>l. status l = ''won'')
                                     (filter (\<lambda>l. ownerId l = u_id u) (leads sample_db)))))
                 (users sample_db))"
    by blast+
  from B have t2: "getStats utc sample_db 1700000000000 (Some 1) (Some ''sales_executive'')
      = getStats utc (sample_db\<lparr>leads := filter (\<lambda>l. ownerId l = 1) (leads sample_db)\<rparr>)
          1700000000000 None None"
    and p2: "getAnalytics utc sample_db 1700000000000 (Some 1) (Some ''sales_executive'')
      = getAnalytics utc (sample_db\<lparr>leads := filter (\<lambda>l. ownerId l = 1) (leads sample_db)\<rparr>)
          1700000000000 None None"
    by blast+
  have w0: "map (l_id \<circ> row) (getAllLeads sample_db (Some 0) (Some ''sales_executive'')) = [2, 1]"
    "totalLeads (getStats utc sample_db 1700000000000 (Some 0) (Some ''sales_executive'')) = 2"
    "leadsByStatus (getStats utc sample_db 1700000000000 (Some 0) (Some ''sales_executive''))
       = [(''new'', 1), (''won'', 1)]"
    "performanceByUser
        (getAnalytics utc sample_db 1700000000000 (Some 0) (Some ''sales_executive''))
       = [(''Alice A'', 1, 0, 0), (''Bob B'', 1, 1, 0)]"
    by (simp_all only: g0 t0 s0 p0 ids len st pu)
  have w1: "totalLeads (getStats utc sample_db 1700000000000 None (Some ''sales_executive'')) = 2"
    "performanceByUser
        (getAnalytics utc sample_db 1700000000000 None (Some ''sales_executive''))
       = [(''Alice A'', 1, 0, 0), (''Bob B'', 1, 1, 0)]"
    by (simp_all only: t1 p1 len pu)
  have w2: "totalLeads (getStats utc sample_db 1700000000000 (Some 1) (Some ''sales_executive'')) = 1"
    "performanceByUser
        (getAnalytics utc sample_db 1700000000000 (Some 1) (Some ''sales_executive''))
       = [(''Alice A'', 1, 0, 0)]"
    by (simp_all only: t2 p2 own ownpu)
  from w0 r1 w1 w2 len one show ?thesis
    by simp
qed

section \<open>Creating a lead\<close>

lemma parse_ownerId:
  assumes "insertLeadSchema_parse b = Some v"
  shows "b ''ownerId'' = Some (JNum (i_ownerId v))"
  using assms
  by (auto simp: insertLeadSchema_parse_def z_int_def
           split: Option.bind_splits option.splits json.splits if_splits)

lemma createLead_ownerId:
  assumes "createLead d now v = (Inr l, d')"
  shows "ownerId l = i_ownerId v \<and> leads d' = leads d @ [l] \<and> users d' = users d
         \<and> activities d' = activities d"
  using assms by (auto simp: createLead_def Let_def split: if_splits)

lemma createLead_failed:
  assumes "createLead d now v = (Inl err, d')"
  shows "leads d' = leads d \<and> users d' = users d \<and> activities d' = activities d"
  using assms by (auto simp: createLead_def Let_def split: if_splits)

lemma lead_body_valid:
  "insertLeadSchema_parse (lead_body(''ownerId'' \<mapsto> JNum 1))
   = Some \<lparr>i_companyName = ''Cogs'', i_contactName = ''Cy'', i_email = ''cy@cogs.test'',
           i_phone = None, i_status = None, i_source = ''web'', i_value = None, i_ownerId = 1\<rparr>"
  by (simp add: insertLeadSchema_parse_def lead_body_def z_string_def z_int_def int4_def
        z_string_nullish_def z_int_nullish_def z_string_optional_def)

lemma createLead_sample:
  "createLead sample_db 1700000000000
     \<lparr>i_companyName = ''Cogs'', i_contactName = ''Cy'', i_email = ''cy@cogs.test'',
      i_phone = None, i_status = None, i_source = ''web'', i_value = None, i_ownerId = 1\<rparr>
   = (Inr \<lparr>l_id = 3, companyName = ''Cogs'', contactName = ''Cy'', l_email = ''cy@cogs.test'',
           phone = None, status = ''new'', source = ''web'', l_value = None, ownerId = 1,
           l_createdAt = 1700000000000, l_updatedAt = 1700000000000\<rparr>,
      sample_db\<lparr>leads := [lead_a, lead_b,
          \<lparr>l_id = 3, companyName = ''Cogs'', contactName = ''Cy'', l_email = ''cy@cogs.test'',
           phone = None, status = ''new'', source = ''web'', l_value = None, ownerId = 1,
           l_createdAt = 1700000000000, l_updatedAt = 1700000000000\<rparr>], leads_seq := 3\<rparr>)"
  by (simp add: createLead_def Let_def sample_defs)

lemma post_leads_sample:
  "post_leads sample_env (Some alice) lead_body sample_db
   = reply 201
       (LeadRow (Some \<lparr>l_id = 3, companyName = ''Cogs'', contactName = ''Cy'',
           l_email = ''cy@cogs.test'', phone = None, status = ''new'', source = ''web'',
           l_value = None, ownerId = 1,
           l_createdAt = 1700000000000, l_updatedAt = 1700000000000\<rparr>))
       (sample_db\<lparr>leads := [lead_a, lead_b,
          \<lparr>l_id = 3, companyName = ''Cogs'', contactName = ''Cy'', l_email = ''cy@cogs.test'',
           phone = None, status = ''new'', source = ''web'', l_value = None, ownerId = 1,
           l_createdAt = 1700000000000, l_updatedAt = 1700000000000\<rparr>], leads_seq := 3\<rparr>)
       [lead_created
          \<lparr>s_row = \<lparr>l_id = 3, companyName = ''Cogs'', contactName = ''Cy'',
              l_email = ''cy@cogs.test'', phone = None, status = ''new'', source = ''web'',
              l_value = None, ownerId = 1,
              l_createdAt = 1700000000000, l_updatedAt = 1700000000000\<rparr>,
           s_owner = None, s_activities = None\<rparr>]
       [CreateLead]"
proof -
  have a: "role alice = ''sales_executive''" and i: "u_id alice = 1"
    by (simp_all add: alice_def)
  show ?thesis
    by (simp add: post_leads_def requireAuth_def a i lead_body_valid sample_env_def
          createLead_sample sanitizeLead_def sanitizeUser_def plain_def)
qed

text \<open>
  Claim C2. For a \<^verbatim>\<open>POST /api/leads\<close> of an authenticated sales executive the
  \<^verbatim>\<open>ownerId\<close> of the body plays no part: whatever the body has there, a value or
  nothing, the outcome is the same. Every lead that the request adds to the store is owned
  by the caller, and a 201 response carries the one lead added, owned by the caller.
\<close>

theorem post_leads_forces_owner:
  assumes "role x = ''sales_executive''"
  shows "post_leads e (Some x) (b(''ownerId'' := v)) d = post_leads e (Some x) b d
         \<and> (\<forall>l. l \<in> set (leads (store (post_leads e (Some x) b d))) \<and> l \<notin> set (leads d)
                \<longrightarrow> ownerId l = u_id x)
         \<and> (code (resp (post_leads e (Some x) b d)) = 201 \<longrightarrow>
              (\<exists>l. content (resp (post_leads e (Some x) b d)) = LeadRow (Some l)
                   \<and> ownerId l = u_id x
                   \<and> leads (store (post_leads e (Some x) b d)) = leads d @ [l]))"
proof (intro conjI)
  show "post_leads e (Some x) (b(''ownerId'' := v)) d = post_leads e (Some x) b d"
    using assms by (simp add: post_leads_def requireAuth_def)
next
  let ?data = "b(''ownerId'' \<mapsto> JNum (u_id x))"
  have out: "post_leads e (Some x) b d =
      (case insertLeadSchema_parse ?data of
         None \<Rightarrow> reply 400 (ErrorOf ZodError) d [] []
       | Some validatedData \<Rightarrow>
           (case createLead d (clock e) validatedData of
              (Inl err, d') \<Rightarrow> reply 400 (ErrorOf err) d' [] [CreateLead]
            | (Inr l, d') \<Rightarrow>
                reply 201 (LeadRow (Some l)) d' [lead_created (sanitizeLead (plain l))] [CreateLead]))"
    using assms by (simp add: post_leads_def requireAuth_def)
  have owner: "i_ownerId w = u_id x" if "insertLeadSchema_parse ?data = Some w" for w
    using parse_ownerId [OF that] by simp
  show "\<forall>l. l \<in> set (leads (store (post_leads e (Some x) b d))) \<and> l \<notin> set (leads d)
            \<longrightarrow> ownerId l = u_id x"
  proof (cases "insertLeadSchema_parse ?data")
    case None
    then show ?thesis by (simp add: out reply_def)
  next
    case (Some w)
    obtain r d' where c: "createLead d (clock e) w = (r, d')" by (cases "createLead d (clock e) w")
    show ?thesis
    proof (cases r)
      case (Inl err)
      with c createLead_failed [of d "clock e" w err d'] Some show ?thesis
        by (simp add: out reply_def)
    next
      case (Inr l)
      with c createLead_ownerId [of d "clock e" w l d'] Some owner [OF Some] show ?thesis
        by (auto simp: out reply_def)
    qed
  qed
  show "code (resp (post_leads e (Some x) b d)) = 201 \<longrightarrow>
          (\<exists>l. content (resp (post_leads e (Some x) b d)) = LeadRow (Some l)
               \<and> ownerId l = u_id x
               \<and> leads (store (post_leads e (Some x) b d)) = leads d @ [l])"
  proof (cases "insertLeadSchema_parse ?data")
    case None
    then show ?thesis by (simp add: out reply_def)
  next
    case (Some w)
    obtain r d' where c: "createLead d (clock e) w = (r, d')" by (cases "createLead d (clock e) w")
    show ?thesis
    proof (cases r)
      case (Inl err)
      with c Some show ?thesis by (simp add: out reply_def)
    next
      case (Inr l)
      with c createLead_ownerId [of d "clock e" w l d'] Some owner [OF Some] show ?thesis
        by (simp add: out reply_def)
    qed
  qed
qed

text \<open>
  Alice posts a body that names Bob (id \<open>2\<close>) as the owner: the answer is 201 and the
  third lead of the store is hers.
\<close>

theorem post_leads_forces_owner_witness:
  "role alice = ''sales_executive''
   \<and> lead_body ''ownerId'' = Some (JNum 2)
   \<and> post_leads sample_env (Some alice) (lead_body(''ownerId'' := None)) sample_db
       = post_leads sample_env (Some alice) lead_body sample_db
   \<and> code (resp (post_leads sample_env (Some alice) lead_body sample_db)) = 201
   \<and> map ownerId (leads (store (post_leads sample_env (Some alice) lead_body sample_db)))
       = [1, 2, 1]"
proof -
  have r: "role alice = ''sales_executive''"
    by (simp add: alice_def)
  have s: "lead_body ''ownerId'' = Some (JNum 2)"
    by (simp add: lead_body_def)
  have c: "code (resp (post_leads sample_env (Some alice) lead_body sample_db)) = 201"
    by (simp add: post_leads_sample reply_def)
  have m: "map ownerId (leads (store (post_leads sample_env (Some alice) lead_body sample_db)))
       = [1, 2, 1]"
    by (simp add: post_leads_sample reply_def lead_a_def lead_b_def)
  from post_leads_forces_owner [OF r, of sample_env lead_body None sample_db] r s c m
  show ?thesis by blast
qed

section \<open>The event of a created lead\<close>

lemma post_leads_event:
  "sent (post_leads e u b d) = []
   \<or> (\<exists>l. sent (post_leads e u b d)
            = [lead_created \<lparr>s_row = l, s_owner = None, s_activities = None\<rparr>])"
  by (auto simp: post_leads_def requireAuth_def reply_def sanitizeLead_def sanitizeUser_def
        plain_def Let_def split: option.splits sum.splits prod.splits)

text \<open>
  Claim C8 says that the \<^verbatim>\<open>lead_created\<close> event carries the created lead with its
  joined owner. The handler gives \<^verbatim>\<open>sanitizeLead\<close> the plain row that \<^verbatim>\<open>createLead\<close>
  returns, so the event has no owner (lemma \<open>post_leads_event\<close>: never). On the sample
  data: Alice creates a lead; the event's owner is missing, although reading the new lead
  back with \<^verbatim>\<open>getLeadById\<close>, as the handler of \<^verbatim>\<open>PUT\<close> does before it broadcasts,
  delivers Alice as the owner.
\<close>

theorem lead_created_without_owner:
  "sent (post_leads sample_env (Some alice) lead_body sample_db)
   = [lead_created
        \<lparr>s_row = \<lparr>l_id = 3, companyName = ''Cogs'', contactName = ''Cy'',
            l_email = ''cy@cogs.test'', phone = None, status = ''new'', source = ''web'',
            l_value = None, ownerId = 1,
            l_createdAt = 1700000000000, l_updatedAt = 1700000000000\<rparr>,
         s_owner = None, s_activities = None\<rparr>]
   \<and> map_sum id (map_option owner)
        (getLeadById (store (post_leads sample_env (Some alice) lead_body sample_db)) 3)
      = Inr (Some (Some alice))"
proof -
  have e: "sent (post_leads sample_env (Some alice) lead_body sample_db)
           = [lead_created
                \<lparr>s_row = \<lparr>l_id = 3, companyName = ''Cogs'', contactName = ''Cy'',
                    l_email = ''cy@cogs.test'', phone = None, status = ''new'', source = ''web'',
                    l_value = None, ownerId = 1,
                    l_createdAt = 1700000000000, l_updatedAt = 1700000000000\<rparr>,
                 s_owner = None, s_activities = None\<rparr>]"
    by (simp add: post_leads_sample reply_def)
  have s: "store (post_leads sample_env (Some alice) lead_body sample_db)
           = sample_db\<lparr>leads := [lead_a, lead_b,
               \<lparr>l_id = 3, companyName = ''Cogs'', contactName = ''Cy'',
                l_email = ''cy@cogs.test'', phone = None, status = ''new'', source = ''web'',
                l_value = None, ownerId = 1,
                l_createdAt = 1700000000000, l_updatedAt = 1700000000000\<rparr>], leads_seq := 3\<rparr>"
    by (simp add: post_leads_sample reply_def)
  have g: "map_sum id (map_option owner)
             (getLeadById (store (post_leads sample_env (Some alice) lead_body sample_db)) 3)
           = Inr (Some (Some alice))"
    unfolding s by (simp add: getLeadById_def int4_def leftJoin_owner_def sample_defs)
  from e g show ?thesis by (rule conjI)
qed

section \<open>Deleting a lead\<close>

lemma run_steps_delete:
  "run_steps f 0 [s1, s2] d
   = (if f = FaultAt 0 \<or> f = FaultAt 1 \<or> f = FaultAt 2 then None else Some (s2 (s1 d)))"
  by (simp add: numeral_2_eq_2)

text \<open>
  Claim C3. When \<^verbatim>\<open>deleteLead\<close> succeeds, the store has lost the lead and exactly the
  activities that referenced it, however many there were: no activity with that
  \<^verbatim>\<open>leadId\<close> is left, and the users are untouched. When it fails, wherever in the
  statement the backend failed, the store is what it was: neither the lead nor any activity
  is removed. Without a fault it succeeds.
\<close>

theorem deleteLead_cascade_atomic:
  "(fst (deleteLead f d i) = None \<longrightarrow>
      leads (snd (deleteLead f d i)) = filter (\<lambda>l. l_id l \<noteq> i) (leads d)
      \<and> activities (snd (deleteLead f d i)) = filter (\<lambda>a. leadId a \<noteq> i) (activities d)
      \<and> filter (\<lambda>a. leadId a = i) (activities (snd (deleteLead f d i))) = []
      \<and> users (snd (deleteLead f d i)) = users d)
   \<and> (fst (deleteLead f d i) \<noteq> None \<longrightarrow> snd (deleteLead f d i) = d)
   \<and> fst (deleteLead NoFault d i) = None"
  by (simp add: deleteLead_def pg_statement_def run_steps_delete delete_from_leads_def
        cascade_activities_def filter_empty_conv)

text \<open>
  Deleting Bob's lead, which has the one activity of the sample data: without a fault the
  lead and the activity are gone; with a fault between the two steps nothing is.
\<close>

theorem deleteLead_cascade_atomic_witness:
  "map leadId (activities sample_db) = [2]
   \<and> fst (deleteLead NoFault sample_db 2) = None
   \<and> activities (snd (deleteLead NoFault sample_db 2)) = []
   \<and> leads (snd (deleteLead NoFault sample_db 2)) = [lead_a]
   \<and> fst (deleteLead (FaultAt 1) sample_db 2) = Some DbError
   \<and> snd (deleteLead (FaultAt 1) sample_db 2) = sample_db"
proof -
  have a: "map leadId (activities sample_db) = [2]"
    by (simp add: sample_defs)
  have f: "fst (deleteLead (FaultAt 1) sample_db 2) = Some DbError"
    by (simp add: deleteLead_def pg_statement_def run_steps_delete)
  have l: "filter (\<lambda>l. l_id l \<noteq> 2) (leads sample_db) = [lead_a]"
    by (simp add: sample_defs)
  have c: "filter (\<lambda>a. leadId a \<noteq> 2) (activities sample_db) = []"
    by (simp add: sample_defs)
  from deleteLead_cascade_atomic [of NoFault sample_db 2]
       deleteLead_cascade_atomic [of "FaultAt 1" sample_db 2] a f l c
  show ?thesis by simp
qed

section \<open>Updating a lead: validation comes first\<close>

lemma bad_body_invalid: "insertLeadSchema_partial_parse bad_body = None"
  by (simp add: insertLeadSchema_partial_parse_def bad_body_def z_string_optional_def)

lemma parseInt_sample_99: "parseInt sample_env (JStr ''99'') = Some 99"
  by (simp add: sample_env_def sample_parseInt_def)

lemma parseInt_sample_2: "parseInt sample_env (JStr ''2'') = Some 2"
  by (simp add: sample_env_def sample_parseInt_def)

lemma no_lead_99: "getLeadById sample_db 99 = Inr None"
  by (simp add: getLeadById_def int4_def leftJoin_owner_def sample_defs)

text \<open>
  Claim C10. In \<^verbatim>\<open>PUT /api/leads/:id\<close> the body is validated before the lead is looked
  up: for an authenticated caller and a body that fails validation the answer is 400 with
  the validation error, whatever the id (so also for an id that no lead has, where a
  valid body gets 404), the store is unchanged, no storage method has been called and
  nothing is broadcast.
\<close>

theorem put_lead_validates_first:
  assumes "insertLeadSchema_partial_parse b = None"
  shows "resp (put_lead e (Some x) pid b d) = \<lparr>code = 400, content = ErrorOf ZodError\<rparr>
         \<and> store (put_lead e (Some x) pid b d) = d
         \<and> calls (put_lead e (Some x) pid b d) = []
         \<and> sent (put_lead e (Some x) pid b d) = []"
  using assms by (simp add: put_lead_def requireAuth_def reply_def)

text \<open>
  Alice sends a body whose \<^verbatim>\<open>companyName\<close> is a number to a lead that does not exist.
\<close>

theorem put_lead_validates_first_witness:
  "insertLeadSchema_partial_parse bad_body = None
   \<and> parseInt sample_env (JStr ''99'') = Some 99
   \<and> getLeadById sample_db 99 = Inr None
   \<and> resp (put_lead sample_env (Some alice) ''99'' bad_body sample_db)
       = \<lparr>code = 400, content = ErrorOf ZodError\<rparr>
   \<and> store (put_lead sample_env (Some alice) ''99'' bad_body sample_db) = sample_db
   \<and> calls (put_lead sample_env (Some alice) ''99'' bad_body sample_db) = []"
  using put_lead_validates_first [OF bad_body_invalid, of sample_env alice "''99''" sample_db]
    bad_body_invalid parseInt_sample_99 no_lead_99
  by simp

section \<open>The order of the checks\<close>

text \<open>
  \<^verbatim>\<open>getLeadById\<close> and the table: for an id of the 32-bit range it returns nothing exactly
  when no lead of the table has the id, and with unique ids (the primary key) it returns
  the lead that has the id.
\<close>

lemma getLeadById_missing:
  assumes "int4 i" and "i \<notin> l_id ` set (leads d)"
  shows "getLeadById d i = Inr None"
proof -
  have "filter (\<lambda>l. l_id l = i) (leads d) = []"
    using assms(2) by (auto simp: filter_empty_conv)
  then have "filter (\<lambda>j. l_id (row j) = i) (concat (map (leftJoin_owner (users d)) (leads d))) = []"
    by (simp add: filter_join [of "\<lambda>l. l_id l = i"])
  with assms(1) show ?thesis
    by (simp add: getLeadById_def)
qed

lemma one_lead:
  assumes "distinct (map l_id ls)" and "l \<in> set ls"
  shows "filter (\<lambda>m. l_id m = l_id l) ls = [l]"
  using assms
proof (induction ls)
  case Nil
  then show ?case by simp
next
  case (Cons a ls)
  from Cons.prems(1) have fresh: "\<forall>m \<in> set ls. l_id m \<noteq> l_id a"
    by (metis distinct.simps(2) imageI list.simps(9) set_map)
  show ?case
  proof (cases "l = a")
    case True
    from fresh have "filter (\<lambda>m. l_id m = l_id a) ls = []"
      by (simp add: filter_empty_conv)
    with True show ?thesis by simp
  next
    case False
    with Cons.prems(2) have in_ls: "l \<in> set ls" by simp
    with fresh have "l_id a \<noteq> l_id l" by metis
    with Cons.IH Cons.prems(1) in_ls show ?thesis by simp
  qed
qed

lemma getLeadById_found:
  assumes "int4 (l_id l)" and "distinct (map l_id (leads d))" and "l \<in> set (leads d)"
  shows "\<exists>j. getLeadById d (l_id l) = Inr (Some j) \<and> row j = l"
proof -
  have f: "filter (\<lambda>j. l_id (row j) = l_id l)
             (concat (map (leftJoin_owner (users d)) (leads d)))
           = leftJoin_owner (users d) l"
    by (simp add: filter_join [of "\<lambda>m. l_id m = l_id l"] one_lead [OF assms(2,3)])
  obtain j js where j: "leftJoin_owner (users d) l = j # js"
    by (cases "leftJoin_owner (users d) l") (auto simp: leftJoin_owner_def split: list.splits)
  then have "j \<in> set (leftJoin_owner (users d) l)" by simp
  then have "row j = l" by (rule rows_in_join)
  with assms(1) f j show ?thesis
    by (simp add: getLeadById_def)
qed

text \<open>The status of each of the three handlers, check by check.\<close>

lemma put_lead_checks:
  assumes "parseInt e (JStr pid) = Some i" and "insertLeadSchema_partial_parse b = Some v"
  shows "code (resp (put_lead e (Some x) pid b d))
         = (case getLeadById d i of
              Inl err \<Rightarrow> 400
            | Inr None \<Rightarrow> 404
            | Inr (Some l) \<Rightarrow>
                if role x = ''sales_executive'' \<and> ownerId (row l) \<noteq> u_id x then 403
                else (case updateLead d (clock e) i v of
                        Inl err \<Rightarrow> 400
                      | Inr r \<Rightarrow> (case getLeadById (snd r) i of Inl err \<Rightarrow> 400 | Inr ul \<Rightarrow> 200)))"
proof (cases "getLeadById d i")
  case (Inl err)
  with assms show ?thesis
    by (simp add: put_lead_def requireAuth_def reply_def)
next
  case (Inr r)
  show ?thesis
  proof (cases r)
    case None
    with Inr assms show ?thesis
      by (simp add: put_lead_def requireAuth_def reply_def)
  next
    case (Some l)
    with Inr assms show ?thesis
      by (simp add: put_lead_def requireAuth_def reply_def
               split: option.split sum.split prod.split)
  qed
qed

lemma post_activities_checks:
  assumes "Option.bind (b ''leadId'') (parseInt e) = Some i"
  shows "code (resp (post_activities e (Some x) b d))
         = (case getLeadById d i of
              Inl err \<Rightarrow> 400
            | Inr None \<Rightarrow> 404
            | Inr (Some l) \<Rightarrow>
                if role x = ''sales_executive'' \<and> ownerId (row l) \<noteq> u_id x then 403
                else (case insertActivitySchema_parse (b(''userId'' \<mapsto> JNum (u_id x))) of
                        None \<Rightarrow> 400
                      | Some v \<Rightarrow>
                          (case fst (createActivity d (clock e) v) of
                             Inl err \<Rightarrow> 400 | Inr a \<Rightarrow> 201)))"
proof (cases "getLeadById d i")
  case (Inl err)
  with assms show ?thesis
    by (simp add: post_activities_def requireAuth_def reply_def)
next
  case (Inr r)
  show ?thesis
  proof (cases r)
    case None
    with Inr assms show ?thesis
      by (simp add: post_activities_def requireAuth_def reply_def)
  next
    case (Some l)
    with Inr assms show ?thesis
      by (simp add: post_activities_def requireAuth_def reply_def
               split: option.split sum.split prod.split)
  qed
qed

lemma delete_lead_checks:
  "code (resp (delete_lead e (Some x) pid d))
   = (if role x \<notin> set [''admin'', ''manager''] then 403
      else (case parseInt e (JStr pid) of
              None \<Rightarrow> 500
            | Some i \<Rightarrow>
                (case getLeadById d i of
                   Inl err \<Rightarrow> 500
                 | Inr None \<Rightarrow> 404
                 | Inr (Some l) \<Rightarrow>
                     (case fst (deleteLead (backend e) d i) of Some err \<Rightarrow> 500 | None \<Rightarrow> 204))))"
  by (simp add: delete_lead_def requireRole_def reply_def
           split: option.split sum.split prod.split)

text \<open>
  An id outside the 32-bit range never reaches the checks: the lookup throws, and the
  \<^verbatim>\<open>catch\<close> of the handler answers.
\<close>

lemma out_of_range_id:
  assumes "\<not> int4 i"
  shows "parseInt e (JStr pid) = Some i \<Longrightarrow> insertLeadSchema_partial_parse b = Some v
           \<Longrightarrow> code (resp (put_lead e (Some x) pid b d)) = 400"
    and "Option.bind (b ''leadId'') (parseInt e) = Some i
           \<Longrightarrow> code (resp (post_activities e (Some x) b d)) = 400"
    and "parseInt e (JStr pid) = Some i \<Longrightarrow> role x \<in> set [''admin'', ''manager'']
           \<Longrightarrow> code (resp (delete_lead e (Some x) pid d)) = 500"
  using assms
  by (simp_all add: put_lead_checks post_activities_checks delete_lead_checks getLeadById_def)

lemma lead_b_in_sample: "lead_b \<in> set (leads sample_db) \<and> l_id lead_b = 2 \<and> ownerId lead_b = 2"
  by (simp add: sample_defs)

lemma sample_lead_ids: "map l_id (leads sample_db) = [1, 2]"
  by (simp add: sample_defs)

lemma empty_body_valid: "insertLeadSchema_partial_parse Map.empty \<noteq> None"
  by (simp add: insertLeadSchema_partial_parse_def z_string_optional_def z_string_nullish_def
        z_int_nullish_def z_int_optional_def)

lemma activity_body_lead: "Option.bind (activity_body ''leadId'') (parseInt sample_env) = Some 2"
  by (simp add: activity_body_def sample_env_def sample_parseInt_def)

lemma parseInt_sample_big: "parseInt sample_env (JStr ''2147483648'') = Some 2147483648"
  by (simp add: sample_env_def sample_parseInt_def)

text \<open>
  Claim C5, as the code has it, for an authenticated caller and an id that
  \<^verbatim>\<open>parseInt\<close> reads as an integer of the 32-bit range of the \<^verbatim>\<open>id\<close> column. In
  \<^verbatim>\<open>PUT /api/leads/:id\<close> with a body that passes validation and in
  \<^verbatim>\<open>POST /api/activities\<close>, an id that no lead of the table has is answered with 404, and
  the id of a lead that is owned by someone other than the calling sales executive with
  403: there the existence check precedes the ownership check.
  \<^verbatim>\<open>DELETE /api/leads/:id\<close> has no ownership check but a role gate in front of the
  handler: an admin or manager gets 404 for an id that no lead has, and every other caller
  gets 403, whether the lead exists or not. The ids of the table are unique (the primary
  key).
\<close>

theorem existence_before_ownership:
  "(parseInt e (JStr pid) = Some i \<and> int4 i \<and> insertLeadSchema_partial_parse b \<noteq> None \<longrightarrow>
      (i \<notin> l_id ` set (leads d) \<longrightarrow> code (resp (put_lead e (Some x) pid b d)) = 404)
      \<and> (\<forall>l. distinct (map l_id (leads d)) \<and> l \<in> set (leads d) \<and> l_id l = i
               \<and> role x = ''sales_executive'' \<and> ownerId l \<noteq> u_id x
             \<longrightarrow> code (resp (put_lead e (Some x) pid b d)) = 403))
   \<and> (Option.bind (b ''leadId'') (parseInt e) = Some i \<and> int4 i \<longrightarrow>
      (i \<notin> l_id ` set (leads d) \<longrightarrow> code (resp (post_activities e (Some x) b d)) = 404)
      \<and> (\<forall>l. distinct (map l_id (leads d)) \<and> l \<in> set (leads d) \<and> l_id l = i
               \<and> role x = ''sales_executive'' \<and> ownerId l \<noteq> u_id x
             \<longrightarrow> code (resp (post_activities e (Some x) b d)) = 403))
   \<and> (parseInt e (JStr pid) = Some i \<and> int4 i \<and> role x \<in> set [''admin'', ''manager'']
        \<and> i \<notin> l_id ` set (leads d)
      \<longrightarrow> code (resp (delete_lead e (Some x) pid d)) = 404)
   \<and> (role x \<notin> set [''admin'', ''manager'']
      \<longrightarrow> code (resp (delete_lead e (Some x) pid d)) = 403)"
proof (intro conjI impI allI)
  assume a: "parseInt e (JStr pid) = Some i \<and> int4 i \<and> insertLeadSchema_partial_parse b \<noteq> None"
  then obtain v where v: "insertLeadSchema_partial_parse b = Some v" by auto
  from a v have c: "code (resp (put_lead e (Some x) pid b d))
         = (case getLeadById d i of
              Inl err \<Rightarrow> 400
            | Inr None \<Rightarrow> 404
            | Inr (Some l) \<Rightarrow>
                if role x = ''sales_executive'' \<and> ownerId (row l) \<noteq> u_id x then 403
                else (case updateLead d (clock e) i v of
                        Inl err \<Rightarrow> 400
                      | Inr r \<Rightarrow> (case getLeadById (snd r) i of Inl err \<Rightarrow> 400 | Inr ul \<Rightarrow> 200)))"
    by (simp add: put_lead_checks)
  show "code (resp (put_lead e (Some x) pid b d)) = 404" if "i \<notin> l_id ` set (leads d)"
    using a that c by (simp add: getLeadById_missing)
  show "code (resp (put_lead e (Some x) pid b d)) = 403"
    if h: "distinct (map l_id (leads d)) \<and> l \<in> set (leads d) \<and> l_id l = i
           \<and> role x = ''sales_executive'' \<and> ownerId l \<noteq> u_id x" for l
  proof -
    from a h getLeadById_found [of l d] obtain j
      where "getLeadById d i = Inr (Some j)" "row j = l" by auto
    with h c show ?thesis by simp
  qed
next
  assume a: "Option.bind (b ''leadId'') (parseInt e) = Some i \<and> int4 i"
  then have c: "code (resp (post_activities e (Some x) b d))
         = (case getLeadById d i of
              Inl err \<Rightarrow> 400
            | Inr None \<Rightarrow> 404
            | Inr (Some l) \<Rightarrow>
                if role x = ''sales_executive'' \<and> ownerId (row l) \<noteq> u_id x then 403
                else (case insertActivitySchema_parse (b(''userId'' \<mapsto> JNum (u_id x))) of
                        None \<Rightarrow> 400
                      | Some v \<Rightarrow>
                          (case fst (createActivity d (clock e) v) of
                             Inl err \<Rightarrow> 400 | Inr a \<Rightarrow> 201)))"
    by (simp add: post_activities_checks)
  show "code (resp (post_activities e (Some x) b d)) = 404" if "i \<notin> l_id ` set (leads d)"
    using a that c by (simp add: getLeadById_missing)
  show "code (resp (post_activities e (Some x) b d)) = 403"
    if h: "distinct (map l_id (leads d)) \<and> l \<in> set (leads d) \<and> l_id l = i
           \<and> role x = ''sales_executive'' \<and> ownerId l \<noteq> u_id x" for l
  proof -
    from a h getLeadById_found [of l d] obtain j
      where "getLeadById d i = Inr (Some j)" "row j = l" by auto
    with h c show ?thesis by simp
  qed
next
  assume "parseInt e (JStr pid) = Some i \<and> int4 i \<and> role x \<in> set [''admin'', ''manager'']
        \<and> i \<notin> l_id ` set (leads d)"
  then show "code (resp (delete_lead e (Some x) pid d)) = 404"
    by (simp add: delete_lead_checks getLeadById_missing)
next
  assume "role x \<notin> set [''admin'', ''manager'']"
  then show "code (resp (delete_lead e (Some x) pid d)) = 403"
    by (simp add: delete_lead_checks)
qed

text \<open>
  On the sample data: Alice, a sales executive, and the missing lead 99 or Bob's lead 2;
  Carol, an admin, deleting the missing lead 99.
\<close>

theorem existence_before_ownership_witness:
  "map l_id (leads sample_db) = [1, 2]
   \<and> lead_b \<in> set (leads sample_db) \<and> l_id lead_b = 2 \<and> ownerId lead_b = 2
   \<and> int4 99 \<and> int4 2
   \<and> u_id alice = 1 \<and> role alice = ''sales_executive'' \<and> role carol = ''admin''
   \<and> code (resp (put_lead sample_env (Some alice) ''99'' Map.empty sample_db)) = 404
   \<and> code (resp (put_lead sample_env (Some alice) ''2'' Map.empty sample_db)) = 403
   \<and> code (resp (post_activities sample_env (Some alice)
                   (activity_body(''leadId'' \<mapsto> JNum 99)) sample_db)) = 404
   \<and> code (resp (post_activities sample_env (Some alice) activity_body sample_db)) = 403
   \<and> code (resp (delete_lead sample_env (Some carol) ''99'' sample_db)) = 404
   \<and> code (resp (delete_lead sample_env (Some alice) ''2'' sample_db)) = 403"
proof -
  have users: "u_id alice = 1" "role alice = ''sales_executive''" "role carol = ''admin''"
    by (simp_all add: alice_def carol_def)
  have range: "int4 99" "int4 2"
    by (simp_all add: int4_def)
  have missing: "99 \<notin> l_id ` set (leads sample_db)"
    by (simp add: sample_defs)
  have uniq: "distinct (map l_id (leads sample_db))"
    by (simp add: sample_lead_ids)
  have foreign: "ownerId lead_b \<noteq> u_id alice"
    by (simp add: lead_b_def alice_def)
  have gate: "role carol \<in> set [''admin'', ''manager'']"
    "role alice \<notin> set [''admin'', ''manager'']"
    by (simp_all add: alice_def carol_def)
  have b99: "Option.bind ((activity_body(''leadId'' \<mapsto> JNum 99)) ''leadId'') (parseInt sample_env)
             = Some 99"
    by (simp add: sample_env_def sample_parseInt_def)
  have p1: "code (resp (put_lead sample_env (Some alice) ''99'' Map.empty sample_db)) = 404"
    using existence_before_ownership [of sample_env "''99''" 99 Map.empty sample_db alice]
      parseInt_sample_99 empty_body_valid missing range(1) by blast
  have p2: "code (resp (put_lead sample_env (Some alice) ''2'' Map.empty sample_db)) = 403"
    using existence_before_ownership [of sample_env "''2''" 2 Map.empty sample_db alice]
      parseInt_sample_2 empty_body_valid lead_b_in_sample uniq users(2) foreign range(2)
    by blast
  have a1: "code (resp (post_activities sample_env (Some alice)
                   (activity_body(''leadId'' \<mapsto> JNum 99)) sample_db)) = 404"
    using existence_before_ownership [of sample_env "''99''" 99
        "activity_body(''leadId'' \<mapsto> JNum 99)" sample_db alice]
      b99 missing range(1) by blast
  have a2: "code (resp (post_activities sample_env (Some alice) activity_body sample_db)) = 403"
    using existence_before_ownership [of sample_env "''2''" 2 activity_body sample_db alice]
      activity_body_lead lead_b_in_sample uniq users(2) foreign range(2)
    by blast
  have d1: "code (resp (delete_lead sample_env (Some carol) ''99'' sample_db)) = 404"
    using existence_before_ownership [of sample_env "''99''" 99 Map.empty sample_db carol]
      parseInt_sample_99 missing gate(1) range(1) by blast
  have d2: "code (resp (delete_lead sample_env (Some alice) ''2'' sample_db)) = 403"
    using existence_before_ownership [of sample_env "''2''" 2 Map.empty sample_db alice]
      gate(2) by blast
  from sample_lead_ids lead_b_in_sample range users p1 p2 a1 a2 d1 d2 show ?thesis
    by simp
qed

text \<open>
  Claim C5 as it is written fails. No lead has the id 99 or the id 2147483648. Alice's
  \<^verbatim>\<open>DELETE /api/leads/99\<close> is answered with 403, not 404; her \<^verbatim>\<open>PUT /api/leads/99\<close>
  with a body that fails validation is answered with 400, not 404; and so is her
  \<^verbatim>\<open>PUT /api/leads/2147483648\<close> with a valid body, an id outside the 32-bit range.
\<close>

theorem delete_lead_forbidden_counterexample:
  "map l_id (leads sample_db) = [1, 2]
   \<and> role alice = ''sales_executive''
   \<and> code (resp (delete_lead sample_env (Some alice) ''99'' sample_db)) = 403
   \<and> code (resp (put_lead sample_env (Some alice) ''99'' bad_body sample_db)) = 400
   \<and> code (resp (put_lead sample_env (Some alice) ''2147483648'' Map.empty sample_db)) = 400"
proof -
  have r: "role alice = ''sales_executive''"
    by (simp add: alice_def)
  have d: "code (resp (delete_lead sample_env (Some alice) ''99'' sample_db)) = 403"
    by (simp add: delete_lead_checks r)
  have p: "code (resp (put_lead sample_env (Some alice) ''99'' bad_body sample_db)) = 400"
    by (simp add: put_lead_def requireAuth_def reply_def bad_body_invalid)
  obtain v where v: "insertLeadSchema_partial_parse Map.empty = Some v"
    using empty_body_valid by auto
  have big: "\<not> int4 2147483648"
    by (simp add: int4_def)
  have q: "code (resp (put_lead sample_env (Some alice) ''2147483648'' Map.empty sample_db)) = 400"
    by (rule out_of_range_id(1) [OF big parseInt_sample_big v])
  from sample_lead_ids r d p q show ?thesis by simp
qed

section \<open>Dashboard statistics\<close>

text \<open>
  \<^verbatim>\<open>recentActivity\<close> has seven entries, and the count of a day is the number of all
  activities of the store created on that day, whoever asks. In a zone whose offset from
  UTC does not change, the seven days are the six days before today and today, once each
  and in this order. Across a change of the offset they need not be: in the sample zone,
  at 01:30 local time on 2023-03-28 (23:30 UTC on the 27th), the seven dates are the
  22nd to the 27th of March with the 26th twice.
\<close>

lemma isoDate_back: "isoDate (now - k * day_ms) = isoDate now - k"
  by (simp add: isoDate_def day_ms_def)

lemma upt_7: "[0..<7] = [0, 1, 2, 3, 4, 5, 6::nat]"
  by (simp add: upt_rec)

lemma last7Days_window:
  assumes "offset_at z = (\<lambda>t. c)" and "offset_of_local z = (\<lambda>t. c)"
  shows "last7Days z now = map (\<lambda>k. isoDate now - 6 + k) [0, 1, 2, 3, 4, 5, 6]"
  by (simp add: last7Days_def setDate_back_def LocalTime_def toUTC_def assms upt_7 isoDate_back)

lemma recentActivity_days:
  assumes "offset_at z = (\<lambda>t. c)" and "offset_of_local z = (\<lambda>t. c)"
  shows "map fst (recentActivity (getStats z d now userId' role'))
         = map (\<lambda>k. isoDate now - 6 + k) [0, 1, 2, 3, 4, 5, 6]"
  by (simp add: getStats_def Let_def last7Days_window [OF assms] comp_def)

lemma last7Days_offset_change:
  "last7Days berlin_2023 1679959800000 = [19438, 19439, 19440, 19441, 19442, 19442, 19443]"
  by (simp add: last7Days_def setDate_back_def LocalTime_def toUTC_def berlin_2023_def upt_7
        isoDate_def day_ms_def)

lemma recentActivity_all_activities:
  "map snd (recentActivity (getStats z d now userId' role'))
   = map (\<lambda>day. length (filter (\<lambda>a. isoDate (a_createdAt a) = day) (activities d)))
       (last7Days z now)"
  by (simp add: getStats_def Let_def comp_def)

lemma getStats_no_leads:
  assumes "leads d = []"
  shows "totalLeads (getStats z d now userId' role') = 0
         \<and> activeLeads (getStats z d now userId' role') = 0
         \<and> convertedLeads (getStats z d now userId' role') = 0
         \<and> totalValue (getStats z d now userId' role') = 0
         \<and> length (recentActivity (getStats z d now userId' role')) = 7"
  using assms by (simp add: getStats_def Let_def last7Days_def split: option.split)

lemma last7Days_sample:
  "last7Days utc 1700000000000 = [19669, 19670, 19671, 19672, 19673, 19674, 19675]"
  by (simp add: last7Days_def setDate_back_def LocalTime_def toUTC_def utc_def upt_7
        isoDate_def day_ms_def)

text \<open>
  Claim C7 says that the statistics of a sales executive count only the activities on that
  caller's leads. \<^verbatim>\<open>getStats\<close> filters the leads by owner, as \<^verbatim>\<open>getAllLeads\<close> does, but
  reads the activities with \<^verbatim>\<open>db.select().from(activities)\<close> and no filter (lemma
  \<open>recentActivity_all_activities\<close>). On the sample data Alice (id \<open>1\<close>) owns lead 1
  only, the one activity is on lead 2, which is Bob's, and Alice's statistics count it
  on the last of the seven days. (The server's zone is UTC here; the last of the seven
  days is the UTC date of the call in every zone.)
\<close>

theorem recentActivity_counts_others:
  "map ownerId (leads sample_db) = [1, 2]
   \<and> map l_id (leads sample_db) = [1, 2]
   \<and> map leadId (activities sample_db) = [2]
   \<and> totalLeads (getStats utc sample_db 1700000000000 (Some 1) (Some ''sales_executive'')) = 1
   \<and> recentActivity (getStats utc sample_db 1700000000000 (Some 1) (Some ''sales_executive''))
       = [(19669, 0), (19670, 0), (19671, 0), (19672, 0), (19673, 0), (19674, 0), (19675, 1)]"
proof -
  have a: "map ownerId (leads sample_db) = [1, 2]" "map l_id (leads sample_db) = [1, 2]"
    "map leadId (activities sample_db) = [2]"
    by (simp_all add: sample_defs)
  have t: "totalLeads (getStats utc sample_db 1700000000000 (Some 1) (Some ''sales_executive'')) = 1"
    by (simp add: getStats_def Let_def sample_defs)
  have r: "recentActivity (getStats utc sample_db 1700000000000 (Some 1) (Some ''sales_executive''))
       = [(19669, 0), (19670, 0), (19671, 0), (19672, 0), (19673, 0), (19674, 0), (19675, 1)]"
    by (simp add: getStats_def Let_def last7Days_sample sample_db_def act_b_def isoDate_def
          day_ms_def)
  from a t r show ?thesis by simp
qed

text \<open>
  Claim C9 says that on an empty lead set every count of \<^verbatim>\<open>recentActivity\<close> is zero.
  Dan (id \<open>4\<close>), a sales executive, owns no lead: his lead set is empty and the four
  totals are zero, but the seven counts are not, since the activities are not filtered
  (the defect of claim C7). The totals and the seven entries are as claimed whenever the
  lead set is empty (lemma \<open>getStats_no_leads\<close>).
\<close>

theorem stats_without_leads_counts_others:
  "map ownerId (leads sample_db) = [1, 2]
   \<and> totalLeads (getStats utc sample_db 1700000000000 (Some 4) (Some ''sales_executive'')) = 0
   \<and> activeLeads (getStats utc sample_db 1700000000000 (Some 4) (Some ''sales_executive'')) = 0
   \<and> convertedLeads (getStats utc sample_db 1700000000000 (Some 4) (Some ''sales_executive'')) = 0
   \<and> totalValue (getStats utc sample_db 1700000000000 (Some 4) (Some ''sales_executive'')) = 0
   \<and> map snd (recentActivity
                (getStats utc sample_db 1700000000000 (Some 4) (Some ''sales_executive'')))
       = [0, 0, 0, 0, 0, 0, 1]"
proof -
  have a: "map ownerId (leads sample_db) = [1, 2]"
    by (simp add: sample_defs)
  have t: "totalLeads (getStats utc sample_db 1700000000000 (Some 4) (Some ''sales_executive'')) = 0"
    "activeLeads (getStats utc sample_db 1700000000000 (Some 4) (Some ''sales_executive'')) = 0"
    "convertedLeads (getStats utc sample_db 1700000000000 (Some 4) (Some ''sales_executive'')) = 0"
    "totalValue (getStats utc sample_db 1700000000000 (Some 4) (Some ''sales_executive'')) = 0"
    by (simp_all add: getStats_def Let_def sample_defs)
  have r: "map snd (recentActivity
                (getStats utc sample_db 1700000000000 (Some 4) (Some ''sales_executive'')))
       = [0, 0, 0, 0, 0, 0, 1]"
    by (simp add: recentActivity_all_activities last7Days_sample sample_db_def act_b_def
          isoDate_def day_ms_def)
  from a t r show ?thesis by simp
qed

section \<open>Responses and passwords\<close>

text \<open>
  The sanitizer does not read the password: \<^verbatim>\<open>sanitizeUser\<close> of a user is the same
  whatever the password is. So two lists of users that are equal once the passwords are
  blanked are equal once they are sanitized, and two stores that are the same but for
  passwords have the same sanitized users and the same leads, activities and sequences.
\<close>

lemma omit_password_ignores_password: "omit_password (u\<lparr>password := p\<rparr>) = omit_password u"
  by (simp add: omit_password_def)

lemma sanitizeUser_ignores_password:
  "sanitizeUser (Some (u\<lparr>password := p\<rparr>)) = sanitizeUser (Some u)"
  by (simp add: sanitizeUser_def omit_password_ignores_password)










lemma s_row_sanitizeLead [simp]: "s_row (sanitizeLead j) = row j"
  by (simp add: sanitizeLead_def)








































end
